theory Spec2Isabelle
  imports Complex_Main
begin

section \<open>JavaScript values and strings\<close>

text \<open>
  Strings are lists of characters. The model is faithful for ASCII text: \<open>toUpperCase\<close>
  maps \<open>a\<close>..\<open>z\<close> only and white space is the ASCII white space that the class
  \<open>\s\<close> and \<open>String.prototype.trim\<close> recognise.

  Values of the language, as far as the modelled code handles them. A number is a real or
  \<open>NaN\<close>; \<open>JFun\<close> is a built-in function or object, known by its name; an object
  is the list of its own properties in insertion order; a \<open>Date\<close> holds its time
  value in milliseconds, \<open>None\<close> for the \<open>NaN\<close> of an invalid date.
\<close>

datatype jsval =
    JUndefined
  | JNull
  | JBool bool
  | JNum real
  | JNaN
  | JStr string
  | JArr "jsval list"
  | JObject "(string \<times> jsval) list"
  | JFun string
  | JDate "int option"

definition toUpperChar :: "char \<Rightarrow> char" where
  "toUpperChar c =
     (let n = (of_char c :: nat) in if 97 \<le> n \<and> n \<le> 122 then char_of (n - 32) else c)"

definition toUpperCase :: "string \<Rightarrow> string" where
  "toUpperCase s = map toUpperChar s"

definition isSpace :: "char \<Rightarrow> bool" where
  "isSpace c = ((of_char c :: nat) \<in> set [9, 10, 11, 12, 13, 32])"

definition trim :: "string \<Rightarrow> string" where
  "trim s = rev (dropWhile isSpace (rev (dropWhile isSpace s)))"

fun startsWith :: "string \<Rightarrow> string \<Rightarrow> bool" where
  "startsWith s [] = True"
| "startsWith [] (p # ps) = False"
| "startsWith (c # cs) (p # ps) = (c = p \<and> startsWith cs ps)"

fun str_includes :: "string \<Rightarrow> string \<Rightarrow> bool" where
  "str_includes [] sub = (sub = [])"
| "str_includes (c # cs) sub = (startsWith (c # cs) sub \<or> str_includes cs sub)"

section \<open>Regular expressions of the source\<close>

text \<open>
  The patterns the source uses are built from literals, alternation, an optional group,
  a greedy one-or-more repetition of a character class, and the end anchor.
  \<open>rx_match r s\<close> lists, in the priority order of a backtracking matcher, what is
  left of \<open>s\<close> after each way \<open>r\<close> matches at its start. \<open>LitI\<close> is a literal under
  the \<open>i\<close> flag.
\<close>

datatype rx =
    LitI string
  | Seq rx rx
  | Alt rx rx
  | Opt rx
  | Plus1 "char list"
  | PlusSpace
  | Eos

fun rx_match :: "rx \<Rightarrow> string \<Rightarrow> string list" where
  "rx_match (LitI l) s =
     (if length l \<le> length s \<and> toUpperCase (take (length l) s) = toUpperCase l
      then [drop (length l) s] else [])"
| "rx_match (Seq a b) s = concat (map (rx_match b) (rx_match a s))"
| "rx_match (Alt a b) s = rx_match a s @ rx_match b s"
| "rx_match (Opt a) s = rx_match a s @ [s]"
| "rx_match (Plus1 cs) s =
     map (\<lambda>k. drop k s) (rev [1..<Suc (length (takeWhile (\<lambda>c. c \<in> set cs) s))])"
| "rx_match PlusSpace s =
     map (\<lambda>k. drop k s) (rev [1..<Suc (length (takeWhile isSpace s))])"
| "rx_match Eos s = (if s = [] then [s] else [])"

fun alts :: "rx list \<Rightarrow> rx" where
  "alts [] = LitI []"
| "alts [r] = r"
| "alts (r # rs) = Alt r (alts rs)"

text \<open>\<open>s.replace(/^r/, '')\<close>: the pattern is tried at the start only.\<close>

definition replace_anchored :: "rx \<Rightarrow> string \<Rightarrow> string" where
  "replace_anchored r s = (case rx_match r s of [] \<Rightarrow> s | rest # _ \<Rightarrow> rest)"

text \<open>\<open>s.replace(/r/, '')\<close> without the \<open>g\<close> flag: the leftmost match is removed.\<close>

fun replace_first :: "rx \<Rightarrow> string \<Rightarrow> string" where
  "replace_first r [] = (case rx_match r [] of [] \<Rightarrow> [] | rest # _ \<Rightarrow> rest)"
| "replace_first r (c # cs) =
     (case rx_match r (c # cs) of [] \<Rightarrow> c # replace_first r cs | rest # _ \<Rightarrow> rest)"

section \<open>Rating normalizer (lib/ratingNormalizer.js)\<close>

definition KNOWN_GRADES :: "string list" where
  "KNOWN_GRADES =
     [''AAA'', ''AA+'', ''AA-'', ''AA'',
      ''A+'', ''A-'', ''A'',
      ''BBB+'', ''BBB-'', ''BBB'',
      ''BB+'', ''BB-'', ''BB'',
      ''B+'', ''B-'', ''B'',
      ''C+'', ''C-'', ''C'',
      ''D'']"

definition NOISE_RESULTS :: "string list" where
  "NOISE_RESULTS =
     [''WITHDRAWN'', ''ISSUERNOTCOOPERATING'', ''CISSUERNOTCOOPERATING'',
      ''PROVISIONALCAREWITHDRAWN'', ''INDWITHDRAWN'']"

definition AGENCY_PREFIXES_RE :: rx where
  "AGENCY_PREFIXES_RE =
     Seq (Opt (LitI ''PROVISIONAL''))
         (alts [LitI ''CRISIL'', LitI ''ICRA'', LitI ''CARE'', LitI ''IVR'', LitI ''BWR'',
                LitI ''ACUITE'', LitI ''SMERA'', LitI ''BRICKWORK'',
                Seq (LitI ''INDIARATING'') (Opt (LitI ''S'')),
                LitI ''INFOMERICS'', LitI ''CRISILBBL'',
                Seq (LitI ''INDIA'') (Seq PlusSpace (LitI ''RATINGS''))])"

definition IND_PREFIX_RE :: rx where
  "IND_PREFIX_RE = alts [LitI ''IND'', LitI ''PP-MLD'']"

definition SUFFIXES_RE :: rx where
  "SUFFIXES_RE =
     Seq (alts [LitI ''CE'', LitI ''SO'', LitI ''RSO'', LitI ''STABLE'', LitI ''POSITIVE'',
                LitI ''NEGATIVE'', LitI ''WATCH'', LitI ''OUTLOOK'', LitI ''SUSPENSION'',
                LitI ''REAFFIRMED''])
         Eos"

text \<open>The key order is the one of the object literal in the source.\<close>

definition GRADE_RANK :: "(string \<times> jsval) list" where
  "GRADE_RANK =
     [(''AAA'', JNum 1), (''AA+'', JNum 2), (''AA'', JNum 3), (''AA-'', JNum 4),
      (''A+'', JNum 5), (''A'', JNum 6), (''A-'', JNum 7),
      (''BBB+'', JNum 8), (''BBB'', JNum 9), (''BBB-'', JNum 10),
      (''BB+'', JNum 11), (''BB'', JNum 12), (''BB-'', JNum 13),
      (''B+'', JNum 14), (''B'', JNum 15), (''B-'', JNum 16),
      (''C+'', JNum 17), (''C'', JNum 18), (''C-'', JNum 19),
      (''D'', JNum 20),
      (''PP-MLD'', JNum 80),
      (''WITHDRAWN'', JNum 90),
      (''Unrated'', JNum 99)]"

text \<open>
  The suffix loop: at most \<open>n\<close> passes (the source runs it with 3), leaving early when
  a pass changes nothing.
\<close>

fun strip_suffixes :: "nat \<Rightarrow> string \<Rightarrow> string" where
  "strip_suffixes 0 s = s"
| "strip_suffixes (Suc n) s =
     (let s' = trim (replace_first SUFFIXES_RE s)
      in if s' = s then s' else strip_suffixes n s')"

text \<open>
  The first steps of \<open>normalizeRating\<close>: the segment before the first \<open>;\<close>,
  trimmed and in upper case; the part before the first \<open>/\<close>; trailing asterisks,
  white space and parentheses removed. \<open>replace(/\s+/g, '')\<close> and
  \<open>replace(/[()]/g, '')\<close> delete every character of the class, which is a filter.
\<close>

definition first_part :: "string \<Rightarrow> string" where
  "first_part r =
     (let s = toUpperCase (trim (takeWhile (\<lambda>c. c \<noteq> CHR '';'') r))
      in if CHR ''/'' \<in> set s then takeWhile (\<lambda>c. c \<noteq> CHR ''/'') s else s)"

definition clean_part :: "string \<Rightarrow> string" where
  "clean_part s =
     trim (filter (\<lambda>c. c \<notin> set ''()'')
            (filter (\<lambda>c. \<not> isSpace c) (replace_first (Seq (Plus1 ''*'') Eos) s)))"

text \<open>Strip \<open>PROVISIONAL\<close> and the agency prefix.\<close>

definition strip_agency :: "string \<Rightarrow> string" where
  "strip_agency s =
     (let t = trim (replace_anchored AGENCY_PREFIXES_RE s)
      in if startsWith t ''PROVISIONAL'' then trim (drop 11 t) else t)"

text \<open>The exact match, then the prefix match, then the cleaned text itself.\<close>

definition match_grade :: "string \<Rightarrow> string option" where
  "match_grade s =
     (case find (\<lambda>g. s = g) KNOWN_GRADES of
        Some g \<Rightarrow> Some g
      | None \<Rightarrow>
          (case find (\<lambda>g. startsWith s g) KNOWN_GRADES of
             Some g \<Rightarrow> Some g
           | None \<Rightarrow> if s = [] then None else Some s))"

text \<open>\<open>normalizeRating(raw)\<close>; \<open>None\<close> is \<open>null\<close> (or \<open>undefined\<close>) on either side.\<close>

definition normalizeRating :: "string option \<Rightarrow> string option" where
  "normalizeRating raw =
     (case raw of
        None \<Rightarrow> None
      | Some r \<Rightarrow>
          if r = [] \<or> trim r = [] then None
          else if clean_part (first_part r) \<in> set NOISE_RESULTS then Some ''WITHDRAWN''
          else if str_includes (strip_agency (clean_part (first_part r))) ''PP-MLD''
          then Some ''PP-MLD''
          else match_grade
                 (strip_suffixes 3
                    (trim (replace_anchored IND_PREFIX_RE
                             (strip_agency (clean_part (first_part r)))))))"

text \<open>
  Property lookup on an object literal: the object's own keys first, then the members
  every object inherits from \<open>Object.prototype\<close>; a key found in neither is
  \<open>undefined\<close>. An inherited member is a function or object, written \<open>JFun\<close> with
  its name.
\<close>

definition Object_prototype_keys :: "string list" where
  "Object_prototype_keys =
     [''constructor'', ''__defineGetter__'', ''__defineSetter__'', ''hasOwnProperty'',
      ''__lookupGetter__'', ''__lookupSetter__'', ''isPrototypeOf'',
      ''propertyIsEnumerable'', ''toString'', ''valueOf'', ''__proto__'',
      ''toLocaleString'']"

definition object_get :: "(string \<times> jsval) list \<Rightarrow> string \<Rightarrow> jsval" where
  "object_get obj key =
     (case map_of obj key of
        Some v \<Rightarrow> v
      | None \<Rightarrow> if key \<in> set Object_prototype_keys then JFun key else JUndefined)"

text \<open>The operator \<open>a ?? b\<close>.\<close>

definition nullish :: "jsval \<Rightarrow> jsval \<Rightarrow> jsval" where
  "nullish a b = (if a = JUndefined \<or> a = JNull then b else a)"

text \<open>
  \<open>getRatingRank(grade)\<close>: \<open>GRADE_RANK[grade] ?? 99\<close>. A \<open>null\<close> grade (\<open>None\<close>) is
  the property key \<open>"null"\<close>.
\<close>

definition getRatingRank :: "string option \<Rightarrow> jsval" where
  "getRatingRank grade =
     nullish (object_get GRADE_RANK (case grade of None \<Rightarrow> ''null'' | Some g \<Rightarrow> g)) (JNum 99)"

text \<open>The comparison \<open>a < b\<close> of two ranks; it is false when either is not a number.\<close>

fun js_less :: "jsval \<Rightarrow> jsval \<Rightarrow> bool" where
  "js_less (JNum a) (JNum b) = (a < b)"
| "js_less _ _ = False"

section \<open>Circuit breaker (lib/indiaBondInfo/circuitBreaker.js)\<close>

datatype STATES = CLOSED | OPEN | HALF_OPEN

text \<open>
  The fields of a \<open>CircuitBreaker\<close>. Times are milliseconds as \<open>Date.now()\<close> gives
  them, \<open>None\<close> is \<open>null\<close>. The thresholds and counters are natural numbers.
  \<open>notified\<close> collects the arguments of the calls of the \<open>onStateChange\<close> listener
  (from, to, failures), the latest last.
\<close>

record CircuitBreaker =
  failureThreshold :: nat
  resetTimeout :: int
  monitorWindow :: int
  state :: STATES
  failures :: nat
  lastFailureTime :: "int option"
  nextRetryTime :: "int option"
  successCount :: nat
  totalRequests :: nat
  notified :: "(STATES \<times> STATES \<times> nat) list"

record breaker_options =
  opt_failureThreshold :: "nat option"
  opt_resetTimeout :: "int option"
  opt_monitorWindow :: "int option"

text \<open>\<open>options.x || d\<close> on a number: a missing value or the number 0 gives \<open>d\<close>.\<close>

definition or_default :: "'a::zero option \<Rightarrow> 'a \<Rightarrow> 'a" where
  "or_default v d = (case v of None \<Rightarrow> d | Some x \<Rightarrow> if x = 0 then d else x)"

definition new_CircuitBreaker :: "breaker_options \<Rightarrow> CircuitBreaker" where
  "new_CircuitBreaker options =
     \<lparr> failureThreshold = or_default (opt_failureThreshold options) 5,
       resetTimeout = or_default (opt_resetTimeout options) 60000,
       monitorWindow = or_default (opt_monitorWindow options) 300000,
       state = CLOSED,
       failures = 0,
       lastFailureTime = None,
       nextRetryTime = None,
       successCount = 0,
       totalRequests = 0,
       notified = [] \<rparr>"

definition transition :: "STATES \<Rightarrow> CircuitBreaker \<Rightarrow> CircuitBreaker" where
  "transition newState cb =
     (if state cb \<noteq> newState
      then cb\<lparr> state := newState,
                notified := notified cb @ [(state cb, newState, failures cb)] \<rparr>
      else cb)"

definition onSuccess :: "CircuitBreaker \<Rightarrow> CircuitBreaker" where
  "onSuccess cb =
     (let cb1 = cb\<lparr> successCount := Suc (successCount cb) \<rparr>
      in if state cb1 = HALF_OPEN then (transition CLOSED cb1)\<lparr> failures := 0 \<rparr> else cb1)"

text \<open>
  \<open>_onFailure(error)\<close>; \<open>t\<close> is what \<open>Date.now()\<close> returns during the call.
  After the two counters are written, the log line reads \<open>error.message\<close>;
  \<open>unreadable error\<close> tells that this read throws, as it does with a \<open>TypeError\<close>
  when the thrown value is \<open>undefined\<close> or \<open>null\<close>. Then the call ends there
  (\<open>Threw_on_message\<close>) and the state test below the log line is not reached.
\<close>

datatype completion = Returned | Threw_on_message

definition onFailure ::
  "('e \<Rightarrow> bool) \<Rightarrow> 'e \<Rightarrow> int \<Rightarrow> CircuitBreaker \<Rightarrow> completion \<times> CircuitBreaker" where
  "onFailure unreadable error t cb =
     (let cb1 = cb\<lparr> failures := Suc (failures cb), lastFailureTime := Some t \<rparr>
      in if unreadable error then (Threw_on_message, cb1)
         else if state cb1 = HALF_OPEN
         then (Returned, (transition OPEN cb1)\<lparr> nextRetryTime := Some (t + resetTimeout cb1) \<rparr>)
         else if state cb1 = CLOSED \<and> failures cb1 \<ge> failureThreshold cb1
         then (Returned, (transition OPEN cb1)\<lparr> nextRetryTime := Some (t + resetTimeout cb1) \<rparr>)
         else (Returned, cb1))"

definition reset :: "CircuitBreaker \<Rightarrow> CircuitBreaker" where
  "reset cb = cb\<lparr> state := CLOSED, failures := 0, lastFailureTime := None,
                     nextRetryTime := None \<rparr>"

text \<open>
  What \<open>execute\<close> throws: the breaker's own \<open>CircuitBreakerError\<close>, the error that
  \<open>_onFailure\<close> raised on reading the message of the operation's error, or whatever
  the operation (or the fallback) threw.
\<close>

datatype 'e failure = CircuitBreakerError | TypeError_on_message | Thrown 'e

text \<open>
  An asynchronous operation acts on the rest of the program's state \<open>'w\<close> and returns
  or throws. \<open>now\<close> reads the clock of that state; \<open>unreadable\<close> is the
  predicate of \<open>onFailure\<close> on what operations throw. The comparison
  \<open>Date.now() >= this.nextRetryTime\<close> takes \<open>null\<close> as 0. In the \<open>catch\<close>
  block an error raised by \<open>_onFailure\<close> leaves \<open>execute\<close> at once, before the
  fallback is looked at.
\<close>

type_synonym ('w, 'e, 'a) operation = "'w \<Rightarrow> ('e + 'a) \<times> 'w"

definition retry_due :: "int \<Rightarrow> CircuitBreaker \<Rightarrow> bool" where
  "retry_due t cb = (t \<ge> (case nextRetryTime cb of None \<Rightarrow> 0 | Some n \<Rightarrow> n))"

definition run_fallback ::
  "('w, 'e, 'a) operation \<Rightarrow> CircuitBreaker \<Rightarrow> 'w \<Rightarrow> ('e failure + 'a) \<times> CircuitBreaker \<times> 'w"
where
  "run_fallback fb cb w =
     (case fb w of (Inl e, w') \<Rightarrow> (Inl (Thrown e), cb, w') | (Inr v, w') \<Rightarrow> (Inr v, cb, w'))"

definition admitted ::
  "('w \<Rightarrow> int) \<Rightarrow> ('e \<Rightarrow> bool) \<Rightarrow> ('w, 'e, 'a) operation \<Rightarrow>
   ('w, 'e, 'a) operation option \<Rightarrow>
   CircuitBreaker \<Rightarrow> 'w \<Rightarrow> ('e failure + 'a) \<times> CircuitBreaker \<times> 'w"
where
  "admitted now unreadable fn fallback cb w =
     (case fn w of
        (Inr result, w') \<Rightarrow> (Inr result, onSuccess cb, w')
      | (Inl error, w') \<Rightarrow>
          (case onFailure unreadable error (now w') cb of
             (Threw_on_message, cb') \<Rightarrow> (Inl TypeError_on_message, cb', w')
           | (Returned, cb') \<Rightarrow>
               (case fallback of
                  Some fb \<Rightarrow>
                    if state cb' = OPEN then run_fallback fb cb' w'
                    else (Inl (Thrown error), cb', w')
                | None \<Rightarrow> (Inl (Thrown error), cb', w'))))"

definition execute ::
  "('w \<Rightarrow> int) \<Rightarrow> ('e \<Rightarrow> bool) \<Rightarrow> ('w, 'e, 'a) operation \<Rightarrow>
   ('w, 'e, 'a) operation option \<Rightarrow>
   CircuitBreaker \<times> 'w \<Rightarrow> ('e failure + 'a) \<times> CircuitBreaker \<times> 'w"
where
  "execute now unreadable fn fallback s =
     (let cb = (fst s)\<lparr> totalRequests := Suc (totalRequests (fst s)) \<rparr>; w = snd s
      in if state cb = OPEN
         then if retry_due (now w) cb
              then admitted now unreadable fn fallback (transition HALF_OPEN cb) w
              else (case fallback of
                      Some fb \<Rightarrow> run_fallback fb cb w
                    | None \<Rightarrow> (Inl CircuitBreakerError, cb, w))
         else admitted now unreadable fn fallback cb w)"

text \<open>A sequence of calls without fallback, one after the other, on one breaker.\<close>

fun run_calls ::
  "('w \<Rightarrow> int) \<Rightarrow> ('e \<Rightarrow> bool) \<Rightarrow> ('w, 'e, 'a) operation list \<Rightarrow>
   CircuitBreaker \<times> 'w \<Rightarrow> CircuitBreaker \<times> 'w"
where
  "run_calls now unreadable [] s = s"
| "run_calls now unreadable (fn # fns) s =
     run_calls now unreadable fns (snd (execute now unreadable fn None s))"

text \<open>
  How many calls of such a sequence ended with the operation's own error, and how many
  ended with any error.
\<close>

fun thrown :: "('e failure + 'a) \<Rightarrow> bool" where
  "thrown (Inl (Thrown e)) = True"
| "thrown _ = False"

fun count_thrown ::
  "('w \<Rightarrow> int) \<Rightarrow> ('e \<Rightarrow> bool) \<Rightarrow> ('w, 'e, 'a) operation list \<Rightarrow>
   CircuitBreaker \<times> 'w \<Rightarrow> nat"
where
  "count_thrown now unreadable [] s = 0"
| "count_thrown now unreadable (fn # fns) s =
     (if thrown (fst (execute now unreadable fn None s)) then 1 else 0)
     + count_thrown now unreadable fns (snd (execute now unreadable fn None s))"

fun count_failed ::
  "('w \<Rightarrow> int) \<Rightarrow> ('e \<Rightarrow> bool) \<Rightarrow> ('w, 'e, 'a) operation list \<Rightarrow>
   CircuitBreaker \<times> 'w \<Rightarrow> nat"
where
  "count_failed now unreadable [] s = 0"
| "count_failed now unreadable (fn # fns) s =
     (if isl (fst (execute now unreadable fn None s)) then 1 else 0)
     + count_failed now unreadable fns (snd (execute now unreadable fn None s))"

section \<open>Request executors (lib/indiaBondInfo/nsdlClient.js, client.js)\<close>

text \<open>
  The outside world is a set of oracles indexed by call number: the outcome and the
  duration of the \<open>n\<close>-th physical HTTP call, the outcome and the duration of the
  \<open>n\<close>-th automated login, the \<open>n\<close>-th random draw
  (\<open>random_below e n k\<close> is \<open>Math.floor(Math.random() * k)\<close>), and the decoder of
  spreadsheet payloads (\<open>None\<close> when it throws). A response carries its status and
  body; \<open>NoResponse\<close> is a transport error or a timeout.
\<close>

datatype 'b http_outcome = Response nat 'b | NoResponse

record 'b env =
  http :: "nat \<Rightarrow> 'b http_outcome"
  http_ms :: "nat \<Rightarrow> nat"
  login :: "nat \<Rightarrow> (string \<times> string) option"
  login_ms :: "nat \<Rightarrow> nat"
  random_below :: "nat \<Rightarrow> nat \<Rightarrow> nat"
  xlsx_rows :: "'b \<Rightarrow> jsval list option"

text \<open>
  Everything the executor mutates besides its breaker: the clock, how many calls of each
  oracle were made, the two cookies in \<open>process.env\<close> (empty when unset), the
  rate-limiter timestamp and the \<open>stats\<close> counters.
\<close>

record world =
  clock :: int
  http_calls :: nat
  login_calls :: nat
  draws :: nat
  NSDL_COOKIE_NL01 :: string
  NSDL_COOKIE_NL1E :: string
  lastRequestTime :: int
  stats_requests :: nat
  stats_successes :: nat
  stats_failures :: nat
  stats_retries :: nat

record config =
  timeout :: nat
  requestDelay :: nat
  jitterMax :: nat
  maxRetries :: nat
  baseBackoffMs :: nat

record client_options =
  opt_timeout :: "nat option"
  opt_requestDelay :: "nat option"
  opt_jitterMax :: "nat option"
  opt_maxRetries :: "nat option"
  opt_baseBackoffMs :: "nat option"
  opt_breaker_failureThreshold :: "nat option"
  opt_breaker_resetTimeout :: "int option"

text \<open>The constructors of \<open>NSDLBondClient\<close> and \<open>IndiaBondInfoClient\<close>.\<close>

definition NSDLBondClient_config :: "client_options \<Rightarrow> config" where
  "NSDLBondClient_config c =
     \<lparr> timeout = or_default (opt_timeout c) 45000,
       requestDelay = or_default (opt_requestDelay c) 1200,
       jitterMax = or_default (opt_jitterMax c) 600,
       maxRetries = or_default (opt_maxRetries c) 3,
       baseBackoffMs = or_default (opt_baseBackoffMs c) 2500 \<rparr>"

definition NSDLBondClient_breaker :: "client_options \<Rightarrow> CircuitBreaker" where
  "NSDLBondClient_breaker c =
     new_CircuitBreaker
       \<lparr> opt_failureThreshold = Some (or_default (opt_breaker_failureThreshold c) 4),
         opt_resetTimeout = Some (or_default (opt_breaker_resetTimeout c) 90000),
         opt_monitorWindow = None \<rparr>"

definition IndiaBondInfoClient_config :: "client_options \<Rightarrow> config" where
  "IndiaBondInfoClient_config c =
     \<lparr> timeout = or_default (opt_timeout c) 30000,
       requestDelay = or_default (opt_requestDelay c) 1000,
       jitterMax = or_default (opt_jitterMax c) 500,
       maxRetries = or_default (opt_maxRetries c) 3,
       baseBackoffMs = or_default (opt_baseBackoffMs c) 2000 \<rparr>"

definition IndiaBondInfoClient_breaker :: "client_options \<Rightarrow> CircuitBreaker" where
  "IndiaBondInfoClient_breaker c =
     new_CircuitBreaker
       \<lparr> opt_failureThreshold = Some (or_default (opt_breaker_failureThreshold c) 5),
         opt_resetTimeout = Some (or_default (opt_breaker_resetTimeout c) 60000),
         opt_monitorWindow = None \<rparr>"

text \<open>
  The errors of the attempt loops: the \<open>Unexpected status\<close> error, the error tagged
  \<open>isHtmlSessionError\<close>, the rejection of the HTTP library (with
  \<open>error.response.status\<close> when there was a response), the session error with its
  message, an error thrown by the spreadsheet decoder, and \<open>undefined\<close> (thrown when
  the loop body never ran).
\<close>

datatype error =
    Unexpected_status nat
  | Html_session_error
  | Request_failed "nat option"
  | Session_expired string
  | Decode_error
  | Undefined_error

fun response_status :: "error \<Rightarrow> nat option" where
  "response_status (Request_failed st) = st"
| "response_status _ = None"

definition sleep :: "int \<Rightarrow> world \<Rightarrow> world" where
  "sleep ms w = w\<lparr> clock := clock w + ms \<rparr>"

definition waitForRateLimit :: "'b env \<Rightarrow> config \<Rightarrow> world \<Rightarrow> world" where
  "waitForRateLimit e c w =
     (let elapsed = clock w - lastRequestTime w;
          totalDelay = int (requestDelay c + random_below e (draws w) (jitterMax c));
          w1 = w\<lparr> draws := Suc (draws w) \<rparr>;
          w2 = (if elapsed < totalDelay then sleep (totalDelay - elapsed) w1 else w1)
      in w2\<lparr> lastRequestTime := clock w2 \<rparr>)"

definition refreshCookies :: "'b env \<Rightarrow> world \<Rightarrow> bool \<times> world" where
  "refreshCookies e w =
     (let w1 = w\<lparr> login_calls := Suc (login_calls w),
                  clock := clock w + int (login_ms e (login_calls w)) \<rparr>
      in case login e (login_calls w) of
           Some freshCookies \<Rightarrow>
             (True, w1\<lparr> NSDL_COOKIE_NL01 := fst freshCookies,
                         NSDL_COOKIE_NL1E := snd freshCookies \<rparr>)
         | None \<Rightarrow> (False, w1))"

text \<open>The physical call \<open>client.get(endpoint, ...)\<close>.\<close>

definition http_get :: "'b env \<Rightarrow> world \<Rightarrow> 'b http_outcome \<times> world" where
  "http_get e w =
     (http e (http_calls w),
      w\<lparr> http_calls := Suc (http_calls w),
         clock := clock w + int (http_ms e (http_calls w)) \<rparr>)"

fun falsy :: "jsval \<Rightarrow> bool" where
  "falsy JUndefined = True"
| "falsy JNull = True"
| "falsy (JBool b) = (\<not> b)"
| "falsy (JNum x) = (x = 0)"
| "falsy JNaN = True"
| "falsy (JStr s) = (s = [])"
| "falsy _ = False"

text \<open>\<open>data.key\<close> on any value: only an object has the properties read here.\<close>

fun member_get :: "jsval \<Rightarrow> string \<Rightarrow> jsval" where
  "member_get (JObject ps) key = object_get ps key"
| "member_get _ key = JUndefined"

fun isArray :: "jsval \<Rightarrow> bool" where
  "isArray (JArr xs) = True"
| "isArray _ = False"

text \<open>The end of the \<open>try\<close> block of \<open>_request\<close>: the array inside the response.\<close>

definition response_array :: "jsval \<Rightarrow> jsval" where
  "response_array d =
     (if isArray d then d
      else if \<not> falsy d \<and> isArray (member_get d ''data'') then member_get d ''data''
      else if \<not> falsy d \<and> isArray (member_get d ''result'') then member_get d ''result''
      else if \<not> falsy d \<and> isArray (member_get d ''content'') then member_get d ''content''
      else if falsy d then JArr [] else d)"

text \<open>
  What the \<open>try\<close> block makes of the outcome of the HTTP call. The HTTP library
  rejects every status outside 200..299; the block itself throws on a status other
  than 200 and on an HTML body.
\<close>

fun is_html :: "jsval \<Rightarrow> bool" where
  "is_html (JStr s) = str_includes s ''<html''"
| "is_html _ = False"

definition request_try :: "jsval env \<Rightarrow> jsval http_outcome \<Rightarrow> world \<Rightarrow> (error + jsval) \<times> world" where
  "request_try e out w =
     (case out of
        NoResponse \<Rightarrow> (Inl (Request_failed None), w)
      | Response st d \<Rightarrow>
          if st < 200 \<or> 300 \<le> st then (Inl (Request_failed (Some st)), w)
          else if st \<noteq> 200 then (Inl (Unexpected_status st), w)
          else if is_html d then (Inl Html_session_error, w)
          else (Inr (response_array d), w\<lparr> stats_successes := Suc (stats_successes w) \<rparr>))"

text \<open>
  In \<open>_requestExcel\<close> the body is a byte buffer, read as text for the HTML check and
  then decoded; the decoder runs after \<open>stats.successes++\<close> and inside the \<open>try\<close>.
\<close>

definition requestExcel_try ::
  "string env \<Rightarrow> string http_outcome \<Rightarrow> world \<Rightarrow> (error + jsval) \<times> world" where
  "requestExcel_try e out w =
     (case out of
        NoResponse \<Rightarrow> (Inl (Request_failed None), w)
      | Response st d \<Rightarrow>
          if st < 200 \<or> 300 \<le> st then (Inl (Request_failed (Some st)), w)
          else if st \<noteq> 200 then (Inl (Unexpected_status st), w)
          else if str_includes d ''<html'' then (Inl Html_session_error, w)
          else (case xlsx_rows e d of
                  Some json \<Rightarrow> (Inr (JArr json), w\<lparr> stats_successes := Suc (stats_successes w) \<rparr>)
                | None \<Rightarrow> (Inl Decode_error, w\<lparr> stats_successes := Suc (stats_successes w) \<rparr>)))"

definition requestWithRetry_try ::
  "jsval env \<Rightarrow> jsval http_outcome \<Rightarrow> world \<Rightarrow> (error + jsval) \<times> world" where
  "requestWithRetry_try e out w =
     (case out of
        NoResponse \<Rightarrow> (Inl (Request_failed None), w)
      | Response st d \<Rightarrow>
          if st < 200 \<or> 300 \<le> st then (Inl (Request_failed (Some st)), w)
          else if st \<noteq> 200 then (Inl (Unexpected_status st), w)
          else (Inr d, w\<lparr> stats_successes := Suc (stats_successes w) \<rparr>))"

text \<open>The wait before a retry: \<open>baseBackoffMs * 2^attempt\<close> plus a draw below 1000.\<close>

definition backoff_sleep :: "'b env \<Rightarrow> config \<Rightarrow> nat \<Rightarrow> world \<Rightarrow> world" where
  "backoff_sleep e c attempt w =
     sleep (int (baseBackoffMs c * 2 ^ attempt + random_below e (draws w) 1000))
       (w\<lparr> draws := Suc (draws w), stats_retries := Suc (stats_retries w) \<rparr>)"

text \<open>
  The attempt loop of \<open>_request\<close> and of \<open>_requestExcel\<close>,
  \<open>for (let attempt = 0; attempt <= this.maxRetries; attempt++)\<close>, from the given
  attempt index on. The two loops differ in their \<open>try\<close> block (\<open>try_block\<close>) and
  in the message of the session error (\<open>expired\<close>) only. \<open>continue\<close> runs the
  update \<open>attempt++\<close> of the \<open>for\<close> statement.
\<close>

function attempt_loop ::
  "'b env \<Rightarrow> config \<Rightarrow> ('b http_outcome \<Rightarrow> world \<Rightarrow> (error + jsval) \<times> world) \<Rightarrow> error \<Rightarrow>
   nat \<Rightarrow> error option \<Rightarrow> world \<Rightarrow> (error + jsval) \<times> world"
where
  "attempt_loop e c try_block expired attempt lastError w =
     (if attempt \<le> maxRetries c
      then
        (case try_block (fst (http_get e (waitForRateLimit e c w)))
                        (snd (http_get e (waitForRateLimit e c w))) of
           (Inr result, w1) \<Rightarrow> (Inr result, w1)
         | (Inl error, w1) \<Rightarrow>
             if response_status error = Some 403 \<or> error = Html_session_error
             then
               (if fst (refreshCookies e w1)
                then attempt_loop e c try_block expired (Suc attempt) (Some error)
                       (snd (refreshCookies e w1))
                else (Inl expired,
                      (snd (refreshCookies e w1))
                        \<lparr> stats_failures := Suc (stats_failures (snd (refreshCookies e w1))) \<rparr>))
             else if response_status error = Some 404 then (Inr (JArr []), w1)
             else if attempt < maxRetries c
             then attempt_loop e c try_block expired (Suc attempt) (Some error)
                    (backoff_sleep e c attempt w1)
             else attempt_loop e c try_block expired (Suc attempt) (Some error) w1)
      else
        (Inl (case lastError of None \<Rightarrow> Undefined_error | Some error \<Rightarrow> error),
         w\<lparr> stats_failures := Suc (stats_failures w) \<rparr>))"
  by pat_completeness auto
termination
  by (relation "measure (\<lambda>(e, c, try_block, expired, attempt, lastError, w).
                           Suc (maxRetries c) - attempt)") auto

text \<open>The attempt loop of \<open>_requestWithRetry\<close> (client.js).\<close>

function requestWithRetry_loop ::
  "jsval env \<Rightarrow> config \<Rightarrow> nat \<Rightarrow> error option \<Rightarrow> world \<Rightarrow> (error + jsval) \<times> world"
where
  "requestWithRetry_loop e c attempt lastError w =
     (if attempt \<le> maxRetries c
      then
        (case requestWithRetry_try e (fst (http_get e (waitForRateLimit e c w)))
                                   (snd (http_get e (waitForRateLimit e c w))) of
           (Inr result, w1) \<Rightarrow> (Inr result, w1)
         | (Inl error, w1) \<Rightarrow>
             if response_status error = Some 404 then (Inr JNull, w1)
             else if response_status error = Some 403
             then (Inl error, w1\<lparr> stats_failures := Suc (stats_failures w1) \<rparr>)
             else if attempt < maxRetries c
             then requestWithRetry_loop e c (Suc attempt) (Some error)
                    (backoff_sleep e c attempt w1)
             else requestWithRetry_loop e c (Suc attempt) (Some error) w1)
      else
        (Inl (case lastError of None \<Rightarrow> Undefined_error | Some error \<Rightarrow> error),
         w\<lparr> stats_failures := Suc (stats_failures w) \<rparr>))"
  by pat_completeness auto
termination
  by (relation "measure (\<lambda>(e, c, attempt, lastError, w). Suc (maxRetries c) - attempt)") auto

text \<open>
  Of the errors of the loops only \<open>undefined\<close> has no \<open>message\<close> to read; the
  others are error objects.
\<close>

definition thrown_undefined :: "error \<Rightarrow> bool" where
  "thrown_undefined error = (error = Undefined_error)"

text \<open>
  The closure \<open>execute\<close> of \<open>_request\<close> and \<open>_requestExcel\<close>: a login first when a
  cookie is missing (its result is not looked at), then the loop from attempt 0.
\<close>

definition ensure_cookies :: "'b env \<Rightarrow> world \<Rightarrow> world" where
  "ensure_cookies e w =
     (if NSDL_COOKIE_NL01 w = [] \<or> NSDL_COOKIE_NL1E w = [] then snd (refreshCookies e w) else w)"

definition request_loop ::
  "jsval env \<Rightarrow> config \<Rightarrow> string \<Rightarrow> nat \<Rightarrow> error option \<Rightarrow> world \<Rightarrow> (error + jsval) \<times> world" where
  "request_loop e c endpoint =
     attempt_loop e c (request_try e) (Session_expired (''NSDL_SESSION_EXPIRED: '' @ endpoint))"

definition requestExcel_loop ::
  "string env \<Rightarrow> config \<Rightarrow> string \<Rightarrow> nat \<Rightarrow> error option \<Rightarrow> world \<Rightarrow> (error + jsval) \<times> world" where
  "requestExcel_loop e c endpoint =
     attempt_loop e c (requestExcel_try e)
       (Session_expired (''NSDL_SESSION_EXPIRED (Excel): '' @ endpoint))"

definition request ::
  "jsval env \<Rightarrow> config \<Rightarrow> string \<Rightarrow> CircuitBreaker \<times> world \<Rightarrow>
   (error failure + jsval) \<times> CircuitBreaker \<times> world" where
  "request e c endpoint s =
     execute clock thrown_undefined (\<lambda>w. request_loop e c endpoint 0 None (ensure_cookies e w)) None
       (fst s, (snd s)\<lparr> stats_requests := Suc (stats_requests (snd s)) \<rparr>)"

definition requestExcel ::
  "string env \<Rightarrow> config \<Rightarrow> string \<Rightarrow> CircuitBreaker \<times> world \<Rightarrow>
   (error failure + jsval) \<times> CircuitBreaker \<times> world" where
  "requestExcel e c endpoint s =
     execute clock thrown_undefined (\<lambda>w. requestExcel_loop e c endpoint 0 None (ensure_cookies e w)) None
       (fst s, (snd s)\<lparr> stats_requests := Suc (stats_requests (snd s)) \<rparr>)"

definition requestWithRetry ::
  "jsval env \<Rightarrow> config \<Rightarrow> CircuitBreaker \<times> world \<Rightarrow>
   (error failure + jsval) \<times> CircuitBreaker \<times> world" where
  "requestWithRetry e c s =
     execute clock thrown_undefined (requestWithRetry_loop e c 0 None) None
       (fst s, (snd s)\<lparr> stats_requests := Suc (stats_requests (snd s)) \<rparr>)"

section \<open>Transformers (lib/indiaBondInfo/transformers.js)\<close>

text \<open>
  Built-ins of the host whose full behaviour is outside the model are parameters:
  \<open>to_String\<close> is \<open>String(v)\<close> for a value that is not a string,
  \<open>parseFloat_text\<close> is \<open>parseFloat\<close> on text (a number or \<open>NaN\<close>), and
  \<open>Date_parse_other\<close> is what \<open>new Date(s)\<close> makes of a string that the model
  of the standard date-time format below does not decide (\<open>None\<close> is \<open>NaN\<close>).
\<close>

record host =
  to_String :: "jsval \<Rightarrow> string"
  parseFloat_text :: "string \<Rightarrow> jsval"
  Date_parse_other :: "string \<Rightarrow> int option"

fun js_String :: "host \<Rightarrow> jsval \<Rightarrow> string" where
  "js_String h (JStr s) = s"
| "js_String h v = to_String h v"

fun parseFloat :: "host \<Rightarrow> jsval \<Rightarrow> jsval" where
  "parseFloat h (JNum x) = JNum x"
| "parseFloat h JNaN = JNaN"
| "parseFloat h v = parseFloat_text h (js_String h v)"

text \<open>\<open>a || b\<close>.\<close>

definition js_or :: "jsval \<Rightarrow> jsval \<Rightarrow> jsval" where
  "js_or a b = (if falsy a then b else a)"

definition isDigit :: "char \<Rightarrow> bool" where
  "isDigit c = (48 \<le> (of_char c :: nat) \<and> (of_char c :: nat) \<le> 57)"

fun digits_value :: "string \<Rightarrow> int" where
  "digits_value s = foldl (\<lambda>n c. 10 * n + (int (of_char c) - 48)) 0 s"

text \<open>
  Days from 1970-01-01 to a day of the proleptic Gregorian calendar, and the days of a
  month.
\<close>

definition days_from_civil :: "int \<Rightarrow> int \<Rightarrow> int \<Rightarrow> int" where
  "days_from_civil y m d =
     (let y1 = (if m \<le> 2 then y - 1 else y);
          era = y1 div 400;
          yoe = y1 - era * 400;
          mp = (m + 9) mod 12;
          doy = (153 * mp + 2) div 5 + d - 1;
          doe = yoe * 365 + yoe div 4 - yoe div 100 + doy
      in era * 146097 + doe - 719468)"

definition days_in_month :: "int \<Rightarrow> int \<Rightarrow> int" where
  "days_in_month y m =
     (if m = 2 then (if y mod 4 = 0 \<and> (y mod 100 \<noteq> 0 \<or> y mod 400 = 0) then 29 else 28)
      else if m = 4 \<or> m = 6 \<or> m = 9 \<or> m = 11 then 30 else 31)"

text \<open>
  \<open>new Date(s)\<close> on a string. The two shapes \<open>YYYY-MM-DD\<close> and
  \<open>YYYY-MM-DDTHH:mm:ss.sssZ\<close> of the standard format are decided here: a month
  outside 01..12, a day outside 01..31, an hour above 24, a minute or second above 59
  is an illegal element and gives \<open>NaN\<close>; legal elements give the UTC time value.
  Everything else (another shape, or a day 29..31 that the month does not have, or
  hour 24, where engines differ) is left to the host.
\<close>

definition iso_shape :: "string \<Rightarrow> bool" where
  "iso_shape s =
     (list_all isDigit (take 4 s) \<and> length s \<ge> 10 \<and> s ! 4 = CHR ''-''
      \<and> list_all isDigit (take 2 (drop 5 s)) \<and> s ! 7 = CHR ''-''
      \<and> list_all isDigit (take 2 (drop 8 s))
      \<and> (length s = 10
          \<or> length s = 24
            \<and> s ! 10 = CHR ''T'' \<and> list_all isDigit (take 2 (drop 11 s)) \<and> s ! 13 = CHR '':''
            \<and> list_all isDigit (take 2 (drop 14 s)) \<and> s ! 16 = CHR '':''
            \<and> list_all isDigit (take 2 (drop 17 s)) \<and> s ! 19 = CHR ''.''
            \<and> list_all isDigit (take 3 (drop 20 s)) \<and> s ! 23 = CHR ''Z''))"

definition new_Date :: "host \<Rightarrow> string \<Rightarrow> int option" where
  "new_Date h s =
     (if iso_shape s
      then
        (let y = digits_value (take 4 s);
             m = digits_value (take 2 (drop 5 s));
             d = digits_value (take 2 (drop 8 s));
             hh = digits_value (take 2 (drop 11 s));
             mi = digits_value (take 2 (drop 14 s));
             ss = digits_value (take 2 (drop 17 s));
             ms = digits_value (take 3 (drop 20 s))
         in if m < 1 \<or> 12 < m \<or> d < 1 \<or> 31 < d \<or> 24 < hh \<or> 59 < mi \<or> 59 < ss then None
            else if days_in_month y m < d \<or> hh = 24 then Date_parse_other h s
            else Some (days_from_civil y m d * 86400000
                       + hh * 3600000 + mi * 60000 + ss * 1000 + ms))
      else Date_parse_other h s)"

text \<open>
  The match of \<open>/^(\d{1,2})[-/](\d{1,2})[-/](\d{4})$/\<close>: the three groups
  \<open>(d, m, y)\<close>. A group \<open>\d{1,2}\<close> is followed by a separator, so it matches
  exactly when the run of digits there has length 1 or 2.
\<close>

definition isSep :: "char \<Rightarrow> bool" where
  "isSep c = (c = CHR ''-'' \<or> c = CHR ''/'')"

definition dmyMatch :: "string \<Rightarrow> (string \<times> string \<times> string) option" where
  "dmyMatch str =
     (let d = takeWhile isDigit str; r1 = drop (length d) str;
          m = takeWhile isDigit (drop 1 r1); r2 = drop (length m) (drop 1 r1);
          y = drop 1 r2
      in if (length d = 1 \<or> length d = 2) \<and> r1 \<noteq> [] \<and> isSep (hd r1)
            \<and> (length m = 1 \<or> length m = 2) \<and> r2 \<noteq> [] \<and> isSep (hd r2)
            \<and> length y = 4 \<and> list_all isDigit y
         then Some (d, m, y) else None)"

definition padStart2 :: "string \<Rightarrow> string" where
  "padStart2 s = replicate (2 - length s) (CHR ''0'') @ s"

text \<open>\<open>parseDate(dateString)\<close>; the result is \<open>null\<close> or a \<open>Date\<close>.\<close>

definition parseDate :: "host \<Rightarrow> jsval \<Rightarrow> jsval" where
  "parseDate h dateString =
     (if falsy dateString then JNull
      else case dateString of
        JDate t \<Rightarrow> JDate t
      | _ \<Rightarrow>
          (let str = trim (js_String h dateString)
           in if str = [] then JNull
              else case dmyMatch str of
                Some (d, m, y) \<Rightarrow>
                  JDate (new_Date h (y @ ''-'' @ padStart2 m @ ''-'' @ padStart2 d
                                       @ ''T00:00:00.000Z''))
              | None \<Rightarrow>
                  (case new_Date h str of None \<Rightarrow> JNull | Some t \<Rightarrow> JDate (Some t))))"

text \<open>\<open>pick(raw, ...keys)\<close>: the first value that is not undefined, null or empty.\<close>

fun pick :: "(string \<times> jsval) list \<Rightarrow> string list \<Rightarrow> jsval" where
  "pick raw [] = JNull"
| "pick raw (key # keys) =
     (if object_get raw key \<noteq> JUndefined \<and> object_get raw key \<noteq> JNull
         \<and> object_get raw key \<noteq> JStr []
      then object_get raw key else pick raw keys)"

text \<open>
  \<open>normalizeRating\<close> of transformers.js (not the one of ratingNormalizer.js); the
  result is a string or \<open>null\<close>.
\<close>

definition transformers_normalizeRating :: "host \<Rightarrow> jsval \<Rightarrow> jsval" where
  "transformers_normalizeRating h raw =
     (let s = trim (toUpperCase
                (filter (\<lambda>c. c \<notin> set ''()'')
                   (filter (\<lambda>c. \<not> isSpace c) (js_String h (js_or raw (JStr []))))))
      in if s = [] then JNull else JStr s)"

text \<open>
  \<open>(pick(record, 'isin', 'ISIN') || '').toUpperCase()\<close>: a value that is neither
  falsy nor a string has no such method, and the call throws a \<open>TypeError\<close>.
\<close>

datatype js_error = TypeError

definition record_isin :: "(string \<times> jsval) list \<Rightarrow> js_error + string" where
  "record_isin record =
     (case js_or (pick record [''isin'', ''ISIN'']) (JStr []) of
        JStr s \<Rightarrow> Inr (toUpperCase s)
      | _ \<Rightarrow> Inl TypeError)"

text \<open>
  The enrichment maps: from an ISIN to the object stored for it. The loops of the
  extractors go through the raw array from its first record; a later \<open>map.set\<close> of
  the same key replaces the earlier one.
\<close>

type_synonym enrichment_map = "string \<rightharpoonup> (string \<times> jsval) list"

fun extractCreditRatingMap_from ::
  "host \<Rightarrow> enrichment_map \<Rightarrow> (string \<times> jsval) list list \<Rightarrow> js_error + enrichment_map" where
  "extractCreditRatingMap_from h mp [] = Inr mp"
| "extractCreditRatingMap_from h mp (record # rawArray) =
     (case record_isin record of
        Inl err \<Rightarrow> Inl err
      | Inr isin \<Rightarrow>
          if isin = [] then extractCreditRatingMap_from h mp rawArray
          else if transformers_normalizeRating h
                    (pick record [''creditRating'', ''rating'', ''credit_rating'']) \<noteq> JNull
          then extractCreditRatingMap_from h
                 (mp(isin \<mapsto>
                    [(''creditRating'',
                      transformers_normalizeRating h
                        (pick record [''creditRating'', ''rating'', ''credit_rating''])),
                     (''ratingAgency'',
                      js_or (pick record [''ratingAgency'', ''rating_agency'', ''agencyName''])
                        JNull)]))
                 rawArray
          else extractCreditRatingMap_from h mp rawArray)"

definition extractCreditRatingMap ::
  "host \<Rightarrow> (string \<times> jsval) list list \<Rightarrow> js_error + enrichment_map" where
  "extractCreditRatingMap h rawArray = extractCreditRatingMap_from h Map.empty rawArray"

fun extractInterestRateMap_from ::
  "host \<Rightarrow> enrichment_map \<Rightarrow> (string \<times> jsval) list list \<Rightarrow> js_error + enrichment_map" where
  "extractInterestRateMap_from h mp [] = Inr mp"
| "extractInterestRateMap_from h mp (record # rawArray) =
     (case record_isin record of
        Inl err \<Rightarrow> Inl err
      | Inr isin \<Rightarrow>
          if isin = [] then extractInterestRateMap_from h mp rawArray
          else extractInterestRateMap_from h
                 (mp(isin \<mapsto>
                    [(''interestRateCategory'',
                      js_or (pick record [''interestRateRange'', ''rateRange'', ''bucket'',
                                          ''rate_range'', ''category''])
                        JNull),
                     (''couponRate'',
                      if parseFloat h (js_or (pick record [''interestRate'', ''couponRate'', ''rate''])
                                         (JNum 0)) = JNaN
                      then JUndefined
                      else parseFloat h (js_or (pick record [''interestRate'', ''couponRate'', ''rate''])
                                           (JNum 0)))]))
                 rawArray)"

definition extractInterestRateMap ::
  "host \<Rightarrow> (string \<times> jsval) list list \<Rightarrow> js_error + enrichment_map" where
  "extractInterestRateMap h rawArray = extractInterestRateMap_from h Map.empty rawArray"

section \<open>Enrichment merge\<close>

text \<open>
  Modelled from the spec: the merge step that applies the enrichment maps to the primary
  records (lib/etl/bondSync.js) is not among the source files. The spec: apply each
  enrichment map in a fixed order; a later map's field only overwrites a prior
  non-empty value if the new value is itself non-empty. A value is empty when it is
  \<open>undefined\<close>, \<open>null\<close> or the empty string, as in \<open>pick\<close>.
\<close>

record bond =
  isin :: string
  attrs :: "string \<rightharpoonup> jsval"

definition is_empty :: "jsval \<Rightarrow> bool" where
  "is_empty v = (v = JUndefined \<or> v = JNull \<or> v = JStr [])"

fun merge_entry :: "(string \<rightharpoonup> jsval) \<Rightarrow> (string \<times> jsval) list \<Rightarrow> (string \<rightharpoonup> jsval)" where
  "merge_entry fs [] = fs"
| "merge_entry fs ((name, v) # entry) =
     merge_entry (if is_empty v then fs else fs(name \<mapsto> v)) entry"

definition apply_enrichment :: "enrichment_map \<Rightarrow> bond \<Rightarrow> bond" where
  "apply_enrichment m b =
     (case m (isin b) of
        None \<Rightarrow> b
      | Some entry \<Rightarrow> b\<lparr> attrs := merge_entry (attrs b) entry \<rparr>)"

fun merge_enrichments :: "enrichment_map list \<Rightarrow> bond \<Rightarrow> bond" where
  "merge_enrichments [] b = b"
| "merge_enrichments (m # ms) b = merge_enrichments ms (apply_enrichment m b)"

text \<open>The ranks along a ladder, each below the next.\<close>

fun strictly_increasing :: "jsval list \<Rightarrow> bool" where
  "strictly_increasing (a # b # rest) = (js_less a b \<and> strictly_increasing (b # rest))"
| "strictly_increasing _ = True"

text \<open>
  The state after the steps an attempt with a session-expired response goes through: the
  rate-limit wait, the HTTP call and one call of \<open>refreshCookies\<close>.
\<close>

definition after_refresh :: "'b env \<Rightarrow> config \<Rightarrow> world \<Rightarrow> world" where
  "after_refresh e c w = snd (refreshCookies e (snd (http_get e (waitForRateLimit e c w))))"

section \<open>Sample runs\<close>

text \<open>
  A breaker with threshold 2 and a reset timeout of one second, over a world that is
  only a clock. What operations throw is an error with its message, or \<open>None\<close> for
  \<open>undefined\<close>. An operation that fails with an error, one that rejects with
  \<open>undefined\<close> and one that succeeds, each taking 5 ms; a fallback. \<open>tripped\<close>
  is the breaker after two calls from time 0 that failed with an error.
\<close>

definition example_options :: breaker_options where
  "example_options =
     \<lparr> opt_failureThreshold = Some 2, opt_resetTimeout = Some 1000, opt_monitorWindow = None \<rparr>"

definition no_value :: "string option \<Rightarrow> bool" where
  "no_value error = (error = None)"

definition op_down :: "(int, string option, string) operation" where
  "op_down w = (Inl (Some ''down''), w + 5)"

definition op_undefined :: "(int, string option, string) operation" where
  "op_undefined w = (Inl None, w + 5)"

definition op_up :: "(int, string option, string) operation" where
  "op_up w = (Inr ''rows'', w + 5)"

definition fallback_cached :: "(int, string option, string) operation" where
  "fallback_cached w = (Inr ''cached'', w)"

definition tripped :: CircuitBreaker where
  "tripped = fst (run_calls id no_value [op_down, op_down] (new_CircuitBreaker example_options, 0))"

text \<open>
  A world with both cookies set, a client with \<open>maxRetries: 1\<close>, and upstreams: one
  that answers 403, then fails at transport level, then answers an empty array, with a
  login that works; one that always answers 403, with a login that fails; one that
  always answers an HTML page under status 200, with a login that works once; two that
  always answer 404.
\<close>

definition world0 :: world where
  "world0 = \<lparr> clock = 0, http_calls = 0, login_calls = 0, draws = 0,
       NSDL_COOKIE_NL01 = ''a'', NSDL_COOKIE_NL1E = ''b'', lastRequestTime = 0,
       stats_requests = 0, stats_successes = 0, stats_failures = 0, stats_retries = 0 \<rparr>"

definition one_retry :: config where
  "one_retry = NSDLBondClient_config
     \<lparr> opt_timeout = None, opt_requestDelay = None, opt_jitterMax = None,
       opt_maxRetries = Some 1, opt_baseBackoffMs = None,
       opt_breaker_failureThreshold = None, opt_breaker_resetTimeout = None \<rparr>"

definition env_403_then_down :: "jsval env" where
  "env_403_then_down =
     \<lparr> http = (\<lambda>n. if n = 0 then Response 403 JNull else if n = 1 then NoResponse
                    else Response 200 (JArr [])),
       http_ms = (\<lambda>n. 100), login = (\<lambda>n. Some (''c1'', ''c2'')), login_ms = (\<lambda>n. 2000),
       random_below = (\<lambda>n k. 0), xlsx_rows = (\<lambda>b. None) \<rparr>"

definition env_403_login_fails :: "jsval env" where
  "env_403_login_fails =
     \<lparr> http = (\<lambda>n. Response 403 JNull),
       http_ms = (\<lambda>n. 100), login = (\<lambda>n. None), login_ms = (\<lambda>n. 2000),
       random_below = (\<lambda>n k. 0), xlsx_rows = (\<lambda>b. None) \<rparr>"

definition env_html_excel :: "string env" where
  "env_html_excel =
     \<lparr> http = (\<lambda>n. Response 200 ''<html><body>Login</body></html>''),
       http_ms = (\<lambda>n. 100), login = (\<lambda>n. if n = 0 then Some (''c1'', ''c2'') else None),
       login_ms = (\<lambda>n. 2000), random_below = (\<lambda>n k. 0), xlsx_rows = (\<lambda>b. None) \<rparr>"

definition env_404 :: "jsval env" where
  "env_404 =
     \<lparr> http = (\<lambda>n. Response 404 (JStr ''Not Found'')),
       http_ms = (\<lambda>n. 100), login = (\<lambda>n. None), login_ms = (\<lambda>n. 2000),
       random_below = (\<lambda>n k. 0), xlsx_rows = (\<lambda>b. None) \<rparr>"

definition env_404_excel :: "string env" where
  "env_404_excel =
     \<lparr> http = (\<lambda>n. Response 404 ''Not Found''),
       http_ms = (\<lambda>n. 100), login = (\<lambda>n. None), login_ms = (\<lambda>n. 2000),
       random_below = (\<lambda>n k. 0), xlsx_rows = (\<lambda>b. None) \<rparr>"

text \<open>
  A host, two raw arrays as the secondary endpoints deliver them, the enrichment maps the
  extractors build from them, and a primary record.
\<close>

definition host0 :: host where
  "host0 = \<lparr> to_String = (\<lambda>v. ''[object]''), parseFloat_text = (\<lambda>s. JNaN),
              Date_parse_other = (\<lambda>s. None) \<rparr>"

definition rate_rows :: "(string \<times> jsval) list list" where
  "rate_rows = [[(''isin'', JStr ''ine002a07809''), (''interestRate'', JStr ''n/a''),
                 (''category'', JStr [])]]"

definition rating_rows :: "(string \<times> jsval) list list" where
  "rating_rows = [[(''ISIN'', JStr ''INE002A07809''), (''rating'', JStr ''crisil aaa'')]]"

definition rate_map :: enrichment_map where
  "rate_map = (case extractInterestRateMap host0 rate_rows of Inl err \<Rightarrow> Map.empty | Inr m \<Rightarrow> m)"

definition rating_map :: enrichment_map where
  "rating_map = (case extractCreditRatingMap host0 rating_rows of Inl err \<Rightarrow> Map.empty | Inr m \<Rightarrow> m)"

definition bond0 :: bond where
  "bond0 = \<lparr> isin = ''INE002A07809'',
              attrs = [''couponRate'' \<mapsto> JNum (17 / 2), ''ratingAgency'' \<mapsto> JStr ''CRISIL''] \<rparr>"

section \<open>Rating normalizer: properties\<close>

text \<open>
  C4. The rank is strictly increasing along the grade ladder from \<open>AAA\<close> to \<open>D\<close>
  and on to \<open>WITHDRAWN\<close>: every grade of the ladder ranks strictly below the next.
\<close>

theorem rank_strictly_monotonic:
  "strictly_increasing (map (\<lambda>g. getRatingRank (Some g))
     [''AAA'', ''AA+'', ''AA'', ''AA-'', ''A+'', ''A'', ''A-'', ''BBB+'', ''BBB'', ''BBB-'',
      ''BB+'', ''BB'', ''BB-'', ''B+'', ''B'', ''B-'', ''C+'', ''C'', ''C-'', ''D'', ''WITHDRAWN''])"
  by (simp add: getRatingRank_def object_get_def GRADE_RANK_def nullish_def)

text \<open>
  C5. \<open>normalizeRating\<close> returns every grade of \<open>KNOWN_GRADES\<close> unchanged.
\<close>

theorem normalizeRating_known_grades:
  "map (\<lambda>g. normalizeRating (Some g)) KNOWN_GRADES = map Some KNOWN_GRADES"
  by code_simp

text \<open>
  C8. The four sample results: \<open>CRISILAAA/STABLE\<close> gives \<open>AAA\<close>, \<open>INDAA+CE\<close>
  gives \<open>AA+\<close>, \<open>BWR BBB+\<close> gives \<open>BBB+\<close>, and the empty string gives
  \<open>null\<close>.
\<close>

theorem normalizeRating_examples:
  "normalizeRating (Some ''CRISILAAA/STABLE'') = Some ''AAA''
   \<and> normalizeRating (Some ''INDAA+CE'') = Some ''AA+''
   \<and> normalizeRating (Some ''BWR BBB+'') = Some ''BBB+''
   \<and> normalizeRating (Some '''') = None"
  by code_simp

text \<open>
  C7. The claim is that every grade outside the rank table gets rank 99. The lookup
  \<open>GRADE_RANK[grade]\<close> also finds what the table inherits from
  \<open>Object.prototype\<close>: for the string \<open>constructor\<close>, which is no key of the
  table, \<open>getRatingRank\<close> returns the inherited function and not 99.
\<close>

theorem getRatingRank_inherited_key:
  "getRatingRank (Some ''constructor'') = JFun ''constructor''
   \<and> getRatingRank (Some ''constructor'') \<noteq> JNum 99"
  by (simp add: getRatingRank_def object_get_def GRADE_RANK_def nullish_def Object_prototype_keys_def)

section \<open>Date parsing: properties\<close>

text \<open>
  C6. The claim is that every unparseable input gives \<open>null\<close>. A string of the
  day-first shape whose numbers are no date, such as \<open>32-13-2024\<close>, takes the first
  branch, which returns the \<open>Date\<close> it builds without the \<open>isNaN\<close> check of the
  second branch: the result is an invalid \<open>Date\<close>, not \<open>null\<close>.
\<close>

theorem parseDate_invalid_day_first:
  "parseDate h (JStr ''32-13-2024'') = JDate None \<and> parseDate h (JStr ''32-13-2024'') \<noteq> JNull"
  by (simp add: parseDate_def dmyMatch_def isDigit_def isSep_def trim_def isSpace_def
      padStart2_def new_Date_def iso_shape_def Let_def)

section \<open>Circuit breaker: properties\<close>

lemma new_breaker_facts:
  "state (new_CircuitBreaker options) = CLOSED" "failures (new_CircuitBreaker options) = 0"
  "0 < failureThreshold (new_CircuitBreaker options)"
  by (auto simp add: new_CircuitBreaker_def or_default_def split: option.splits)

lemma transition_fields [simp]:
  "failures (transition s cb) = failures cb"
  "failureThreshold (transition s cb) = failureThreshold cb"
  "resetTimeout (transition s cb) = resetTimeout cb"
  "state (transition s cb) = s"
  by (simp_all add: transition_def)

lemma onFailure_unreadable:
  "unreadable e \<Longrightarrow>
   onFailure unreadable e t cb
     = (Threw_on_message, cb\<lparr> failures := Suc (failures cb), lastFailureTime := Some t \<rparr>)"
  by (simp add: onFailure_def Let_def)

lemma onFailure_closed:
  "state cb = CLOSED \<Longrightarrow> \<not> unreadable e \<Longrightarrow>
   fst (onFailure unreadable e t cb) = Returned \<and>
   failures (snd (onFailure unreadable e t cb)) = Suc (failures cb) \<and>
   failureThreshold (snd (onFailure unreadable e t cb)) = failureThreshold cb \<and>
   resetTimeout (snd (onFailure unreadable e t cb)) = resetTimeout cb \<and>
   (Suc (failures cb) < failureThreshold cb \<longrightarrow>
      state (snd (onFailure unreadable e t cb)) = CLOSED) \<and>
   (failureThreshold cb \<le> Suc (failures cb) \<longrightarrow>
      state (snd (onFailure unreadable e t cb)) = OPEN \<and>
      nextRetryTime (snd (onFailure unreadable e t cb)) = Some (t + resetTimeout cb))"
  by (simp add: onFailure_def Let_def)

lemma onFailure_half_open:
  "state cb = HALF_OPEN \<Longrightarrow> \<not> unreadable e \<Longrightarrow>
   fst (onFailure unreadable e t cb) = Returned \<and>
   state (snd (onFailure unreadable e t cb)) = OPEN \<and>
   nextRetryTime (snd (onFailure unreadable e t cb)) = Some (t + resetTimeout cb)"
  by (simp add: onFailure_def Let_def)

lemma onFailure_failures:
  "failures (snd (onFailure unreadable e t cb)) = Suc (failures cb)"
  "failureThreshold (snd (onFailure unreadable e t cb)) = failureThreshold cb"
  by (simp_all add: onFailure_def Let_def)

lemma exec_closed_success:
  "state cb = CLOSED \<Longrightarrow> fn w = (Inr v, w') \<Longrightarrow>
   execute now unreadable fn fb (cb, w)
     = (Inr v, cb\<lparr>totalRequests := Suc (totalRequests cb),
                  successCount := Suc (successCount cb)\<rparr>, w')"
  by (simp add: execute_def admitted_def onSuccess_def Let_def)

lemma exec_closed_failure:
  assumes st: "state cb = CLOSED" and fw: "fn w = (Inl e, w')" and rd: "\<not> unreadable e"
  shows "execute now unreadable fn None (cb, w)
     = (Inl (Thrown e),
        snd (onFailure unreadable e (now w') (cb\<lparr>totalRequests := Suc (totalRequests cb)\<rparr>)), w')"
proof -
  let ?cb0 = "cb\<lparr>totalRequests := Suc (totalRequests cb)\<rparr>"
  obtain k cb' where onf: "onFailure unreadable e (now w') ?cb0 = (k, cb')"
    by (cases "onFailure unreadable e (now w') ?cb0")
  from onFailure_closed [of ?cb0 unreadable e "now w'"] st rd onf have "k = Returned"
    by simp
  with st fw onf show ?thesis
    by (simp add: execute_def admitted_def Let_def)
qed

lemma exec_closed_unreadable:
  "state cb = CLOSED \<Longrightarrow> fn w = (Inl e, w') \<Longrightarrow> unreadable e \<Longrightarrow>
   execute now unreadable fn fb (cb, w)
     = (Inl TypeError_on_message,
        cb\<lparr> totalRequests := Suc (totalRequests cb), failures := Suc (failures cb),
            lastFailureTime := Some (now w') \<rparr>, w')"
  by (simp add: execute_def admitted_def onFailure_unreadable Let_def)

lemma run_closed_invariant:
  "state cb = CLOSED \<Longrightarrow>
   failures cb + count_failed now unreadable fns (cb, w) < failureThreshold cb \<Longrightarrow>
   state (fst (run_calls now unreadable fns (cb, w))) = CLOSED \<and>
   failures (fst (run_calls now unreadable fns (cb, w)))
     = failures cb + count_failed now unreadable fns (cb, w)"
proof (induction fns arbitrary: cb w)
  case Nil
  then show ?case by simp
next
  case (Cons fn fns)
  obtain r w' where fw: "fn w = (r, w')" by (cases "fn w")
  show ?case
  proof (cases r)
    case (Inl e)
    show ?thesis
    proof (cases "unreadable e")
      case True
      let ?cb' = "cb\<lparr> totalRequests := Suc (totalRequests cb), failures := Suc (failures cb),
                       lastFailureTime := Some (now w') \<rparr>"
      have ex: "execute now unreadable fn None (cb, w) = (Inl TypeError_on_message, ?cb', w')"
        using Cons.prems(1) fw Inl True by (simp add: exec_closed_unreadable)
      have lt: "failures ?cb' + count_failed now unreadable fns (?cb', w') < failureThreshold ?cb'"
        using Cons.prems(2) ex by simp
      have st: "state ?cb' = CLOSED"
        using Cons.prems(1) by simp
      from Cons.IH [OF st lt] ex show ?thesis by simp
    next
      case False
      let ?cb' = "snd (onFailure unreadable e (now w')
                         (cb\<lparr>totalRequests := Suc (totalRequests cb)\<rparr>))"
      have ex: "execute now unreadable fn None (cb, w) = (Inl (Thrown e), ?cb', w')"
        using Cons.prems(1) fw Inl False by (simp add: exec_closed_failure)
      have lt: "Suc (failures cb) + count_failed now unreadable fns (?cb', w') < failureThreshold cb"
        using Cons.prems(2) ex by simp
      have st: "state ?cb' = CLOSED" and fl: "failures ?cb' = Suc (failures cb)"
        and th: "failureThreshold ?cb' = failureThreshold cb"
        using Cons.prems(1) lt False
          onFailure_closed [of "cb\<lparr>totalRequests := Suc (totalRequests cb)\<rparr>" unreadable e "now w'"]
        by simp_all
      from Cons.IH [of ?cb' w'] st fl th lt ex show ?thesis by simp
    qed
  next
    case (Inr v)
    let ?cb' = "cb\<lparr>totalRequests := Suc (totalRequests cb), successCount := Suc (successCount cb)\<rparr>"
    have ex: "execute now unreadable fn None (cb, w) = (Inr v, ?cb', w')"
      using Cons.prems(1) fw Inr by (simp add: exec_closed_success)
    from Cons.IH [of ?cb' w'] Cons.prems ex show ?thesis by simp
  qed
qed

lemma count_thrown_le: "count_thrown now unreadable fns s \<le> length fns"
  by (induction fns arbitrary: s) (auto simp add: le_SucI)

lemma thrown_closed:
  assumes "state cb = CLOSED" and "thrown (fst (execute now unreadable fn None (cb, w)))"
  obtains e w' where "fn w = (Inl e, w')" and "\<not> unreadable e"
proof (cases "fn w")
  case (Pair r w')
  show ?thesis
  proof (cases r)
    case (Inl e)
    show ?thesis
    proof (cases "unreadable e")
      case True
      with Pair Inl assms show ?thesis by (simp add: exec_closed_unreadable)
    next
      case False
      with Pair Inl that show ?thesis by simp
    qed
  next
    case (Inr v)
    with Pair assms show ?thesis by (simp add: exec_closed_success)
  qed
qed

lemma run_all_fail:
  "state cb = CLOSED \<Longrightarrow> count_thrown now unreadable fns (cb, w) = length fns \<Longrightarrow> fns \<noteq> [] \<Longrightarrow>
   failures cb + length fns = failureThreshold cb \<Longrightarrow>
   state (fst (run_calls now unreadable fns (cb, w))) = OPEN \<and>
   nextRetryTime (fst (run_calls now unreadable fns (cb, w)))
     = Some (now (snd (run_calls now unreadable fns (cb, w))) + resetTimeout cb)"
proof (induction fns arbitrary: cb w)
  case Nil
  then show ?case by simp
next
  case (Cons fn fns)
  let ?s = "snd (execute now unreadable fn None (cb, w))"
  from count_thrown_le [where now = now and unreadable = unreadable and fns = fns and s = ?s]
    Cons.prems(2)
  have thr: "thrown (fst (execute now unreadable fn None (cb, w)))"
    and rest: "count_thrown now unreadable fns ?s = length fns"
    by (auto split: if_splits)
  from Cons.prems(1) thr obtain e w' where fw: "fn w = (Inl e, w')" and rd: "\<not> unreadable e"
    by (rule thrown_closed)
  let ?cb' = "snd (onFailure unreadable e (now w')
                     (cb\<lparr>totalRequests := Suc (totalRequests cb)\<rparr>))"
  have ex: "execute now unreadable fn None (cb, w) = (Inl (Thrown e), ?cb', w')"
    using Cons.prems(1) fw rd by (simp add: exec_closed_failure)
  have onf: "failures ?cb' = Suc (failures cb) \<and>
     failureThreshold ?cb' = failureThreshold cb \<and>
     resetTimeout ?cb' = resetTimeout cb \<and>
     (Suc (failures cb) < failureThreshold cb \<longrightarrow> state ?cb' = CLOSED) \<and>
     (failureThreshold cb \<le> Suc (failures cb) \<longrightarrow>
        state ?cb' = OPEN \<and> nextRetryTime ?cb' = Some (now w' + resetTimeout cb))"
    using onFailure_closed [of "cb\<lparr>totalRequests := Suc (totalRequests cb)\<rparr>" unreadable e "now w'"]
      Cons.prems(1) rd by simp
  show ?case
  proof (cases "fns = []")
    case True
    with Cons.prems(4) onf ex show ?thesis by simp
  next
    case False
    with Cons.prems(4) have lt: "Suc (failures cb) < failureThreshold cb"
      by (cases fns) auto
    with onf have st: "state ?cb' = CLOSED" and fl: "failures ?cb' = Suc (failures cb)"
      and th: "failureThreshold ?cb' = failureThreshold cb" and rt: "resetTimeout ?cb' = resetTimeout cb"
      by simp_all
    have sum: "failures ?cb' + length fns = failureThreshold ?cb'"
      using fl th Cons.prems(4) by simp
    from rest ex have rest': "count_thrown now unreadable fns (?cb', w') = length fns" by simp
    from Cons.IH [OF st rest' False sum] ex rt show ?thesis by simp
  qed
qed

text \<open>
  C2, amended. A new breaker is \<open>CLOSED\<close>; after \<open>failureThreshold\<close> calls in a row that
  each ended with the operation's own error it is \<open>OPEN\<close> with
  \<open>nextRetryTime = now + resetTimeout\<close>. A call made while \<open>OPEN\<close> and before
  \<open>nextRetryTime\<close> does not invoke the operation: without a fallback it fails with
  \<open>CircuitBreakerError\<close>, with a fallback it returns what the fallback returns. A call
  made while \<open>OPEN\<close> at or after \<open>nextRetryTime\<close> behaves as the same call on the breaker
  moved to \<open>HALF_OPEN\<close>. A successful call in \<open>HALF_OPEN\<close> returns the operation's
  result and leaves the breaker \<open>CLOSED\<close> with the failure counter 0; a call in
  \<open>HALF_OPEN\<close> that fails with an error whose message can be read leaves it \<open>OPEN\<close>
  with \<open>nextRetryTime = now + resetTimeout\<close>, the time read after the operation failed.
  Nothing is said here of an operation that rejects with \<open>undefined\<close> or \<open>null\<close>.
\<close>

theorem breaker_state_machine:
  fixes now :: "'w \<Rightarrow> int" and fn :: "('w, 'e, 'a) operation"
  shows
  "state (new_CircuitBreaker options) = CLOSED
   \<and> (length fns = failureThreshold (new_CircuitBreaker options)
        \<and> count_thrown now unreadable fns (new_CircuitBreaker options, w0) = length fns
        \<longrightarrow> state (fst (run_calls now unreadable fns (new_CircuitBreaker options, w0))) = OPEN
          \<and> nextRetryTime (fst (run_calls now unreadable fns (new_CircuitBreaker options, w0)))
              = Some (now (snd (run_calls now unreadable fns (new_CircuitBreaker options, w0)))
                      + resetTimeout (new_CircuitBreaker options)))
   \<and> (state cb = OPEN \<and> nextRetryTime cb = Some t \<and> now w < t
        \<longrightarrow> execute now unreadable fn None (cb, w)
              = (Inl CircuitBreakerError, cb\<lparr> totalRequests := Suc (totalRequests cb) \<rparr>, w)
          \<and> execute now unreadable fn (Some fb) (cb, w)
              = run_fallback fb (cb\<lparr> totalRequests := Suc (totalRequests cb) \<rparr>) w)
   \<and> (state cb = OPEN \<and> nextRetryTime cb = Some t \<and> t \<le> now w
        \<longrightarrow> state (transition HALF_OPEN cb) = HALF_OPEN
          \<and> execute now unreadable fn fallback (cb, w)
              = execute now unreadable fn fallback (transition HALF_OPEN cb, w))
   \<and> (state cb = HALF_OPEN \<and> fn w = (Inr v, w')
        \<longrightarrow> execute now unreadable fn fallback (cb, w)
              = (Inr v, fst (snd (execute now unreadable fn fallback (cb, w))), w')
          \<and> state (fst (snd (execute now unreadable fn fallback (cb, w)))) = CLOSED
          \<and> failures (fst (snd (execute now unreadable fn fallback (cb, w)))) = 0)
   \<and> (state cb = HALF_OPEN \<and> fn w = (Inl e, w') \<and> \<not> unreadable e
        \<longrightarrow> execute now unreadable fn None (cb, w)
              = (Inl (Thrown e), fst (snd (execute now unreadable fn None (cb, w))), w')
          \<and> state (fst (snd (execute now unreadable fn fallback (cb, w)))) = OPEN
          \<and> nextRetryTime (fst (snd (execute now unreadable fn fallback (cb, w))))
              = Some (now w' + resetTimeout cb))"
proof -
  let ?new = "new_CircuitBreaker options"
  have a: "state ?new = CLOSED" by (rule new_breaker_facts)
  have b: "length fns = failureThreshold ?new
        \<and> count_thrown now unreadable fns (?new, w0) = length fns
        \<longrightarrow> state (fst (run_calls now unreadable fns (?new, w0))) = OPEN
          \<and> nextRetryTime (fst (run_calls now unreadable fns (?new, w0)))
              = Some (now (snd (run_calls now unreadable fns (?new, w0))) + resetTimeout ?new)"
  proof (intro impI, elim conjE)
    assume len: "length fns = failureThreshold ?new"
      and all: "count_thrown now unreadable fns (?new, w0) = length fns"
    from len new_breaker_facts(3) [of options] have ne: "fns \<noteq> []" by auto
    from len new_breaker_facts(2) [of options]
    have sum: "failures ?new + length fns = failureThreshold ?new" by simp
    from run_all_fail [OF a all ne sum]
    show "state (fst (run_calls now unreadable fns (?new, w0))) = OPEN
          \<and> nextRetryTime (fst (run_calls now unreadable fns (?new, w0)))
              = Some (now (snd (run_calls now unreadable fns (?new, w0))) + resetTimeout ?new)" .
  qed
  have c: "state cb = OPEN \<and> nextRetryTime cb = Some t \<and> now w < t
        \<longrightarrow> execute now unreadable fn None (cb, w)
              = (Inl CircuitBreakerError, cb\<lparr> totalRequests := Suc (totalRequests cb) \<rparr>, w)
          \<and> execute now unreadable fn (Some fb) (cb, w)
              = run_fallback fb (cb\<lparr> totalRequests := Suc (totalRequests cb) \<rparr>) w"
    by (simp add: execute_def retry_due_def Let_def)
  have d: "state cb = OPEN \<and> nextRetryTime cb = Some t \<and> t \<le> now w
        \<longrightarrow> state (transition HALF_OPEN cb) = HALF_OPEN
          \<and> execute now unreadable fn fallback (cb, w)
              = execute now unreadable fn fallback (transition HALF_OPEN cb, w)"
    by (cases cb) (simp add: execute_def retry_due_def Let_def transition_def)
  have e: "state cb = HALF_OPEN \<and> fn w = (Inr v, w')
        \<longrightarrow> execute now unreadable fn fallback (cb, w)
              = (Inr v, fst (snd (execute now unreadable fn fallback (cb, w))), w')
          \<and> state (fst (snd (execute now unreadable fn fallback (cb, w)))) = CLOSED
          \<and> failures (fst (snd (execute now unreadable fn fallback (cb, w)))) = 0"
    by (simp add: execute_def admitted_def onSuccess_def Let_def)
  have f: "state cb = HALF_OPEN \<and> fn w = (Inl e, w') \<and> \<not> unreadable e
        \<longrightarrow> execute now unreadable fn None (cb, w)
              = (Inl (Thrown e), fst (snd (execute now unreadable fn None (cb, w))), w')
          \<and> state (fst (snd (execute now unreadable fn fallback (cb, w)))) = OPEN
          \<and> nextRetryTime (fst (snd (execute now unreadable fn fallback (cb, w))))
              = Some (now w' + resetTimeout cb)"
  proof (intro impI, elim conjE)
    assume st: "state cb = HALF_OPEN" and fw: "fn w = (Inl e, w')" and rd: "\<not> unreadable e"
    let ?cb0 = "cb\<lparr> totalRequests := Suc (totalRequests cb) \<rparr>"
    obtain k cb' where onf: "onFailure unreadable e (now w') ?cb0 = (k, cb')"
      by (cases "onFailure unreadable e (now w') ?cb0")
    from onFailure_half_open [of ?cb0 unreadable e "now w'"] st rd onf
    have k: "k = Returned" and so: "state cb' = OPEN"
      and nrt: "nextRetryTime cb' = Some (now w' + resetTimeout cb)"
      by simp_all
    have none: "execute now unreadable fn None (cb, w) = (Inl (Thrown e), cb', w')"
      using st fw onf k by (simp add: execute_def admitted_def Let_def)
    have any: "fst (snd (execute now unreadable fn fallback (cb, w))) = cb'"
    proof (cases fallback)
      case None
      with none show ?thesis by simp
    next
      case (Some fb)
      obtain r w'' where "fb w' = (r, w'')" by (cases "fb w'")
      with Some st fw onf k so show ?thesis
        by (cases r) (simp_all add: execute_def admitted_def run_fallback_def Let_def)
    qed
    from none any so nrt
    show "execute now unreadable fn None (cb, w)
              = (Inl (Thrown e), fst (snd (execute now unreadable fn None (cb, w))), w')
          \<and> state (fst (snd (execute now unreadable fn fallback (cb, w)))) = OPEN
          \<and> nextRetryTime (fst (snd (execute now unreadable fn fallback (cb, w))))
              = Some (now w' + resetTimeout cb)"
      by simp
  qed
  from a b c d e f show ?thesis by blast
qed

lemma tripped_value:
  "tripped = \<lparr> failureThreshold = 2, resetTimeout = 1000, monitorWindow = 300000, state = OPEN,
       failures = 2, lastFailureTime = Some 10, nextRetryTime = Some 1010, successCount = 0,
       totalRequests = 2, notified = [(CLOSED, OPEN, 2)] \<rparr>"
  by (simp add: tripped_def example_options_def new_CircuitBreaker_def or_default_def op_down_def
      no_value_def execute_def admitted_def onFailure_def transition_def Let_def)

text \<open>
  The sample breaker goes through every transition of the theorem: tripped by two
  failures, rejecting at time 500, admitting at time 1010, closing on success and
  re-opening on failure.
\<close>

theorem breaker_state_machine_witness:
  "state tripped = OPEN \<and> nextRetryTime tripped = Some 1010
   \<and> execute id no_value op_up None (tripped, 500)
       = (Inl CircuitBreakerError, tripped\<lparr> totalRequests := 3 \<rparr>, 500)
   \<and> execute id no_value op_up (Some fallback_cached) (tripped, 500)
       = (Inr ''cached'', tripped\<lparr> totalRequests := 3 \<rparr>, 500)
   \<and> execute id no_value op_up None (tripped, 1010)
       = execute id no_value op_up None (transition HALF_OPEN tripped, 1010)
   \<and> state (fst (snd (execute id no_value op_up None (transition HALF_OPEN tripped, 1010)))) = CLOSED
   \<and> failures (fst (snd (execute id no_value op_up None (transition HALF_OPEN tripped, 1010)))) = 0
   \<and> state (fst (snd (execute id no_value op_down None (transition HALF_OPEN tripped, 1010)))) = OPEN
   \<and> nextRetryTime (fst (snd (execute id no_value op_down None (transition HALF_OPEN tripped, 1010))))
       = Some 2015"
proof -
  have fails: "count_thrown id no_value [op_down, op_down] (new_CircuitBreaker example_options, 0)
               = length [op_down, op_down]"
    by (simp add: example_options_def new_CircuitBreaker_def or_default_def op_down_def
        no_value_def execute_def admitted_def onFailure_def transition_def Let_def)
  have len: "length [op_down, op_down] = failureThreshold (new_CircuitBreaker example_options)"
    by (simp add: new_CircuitBreaker_def example_options_def or_default_def)
  have rt: "resetTimeout (new_CircuitBreaker example_options) = 1000"
    by (simp add: new_CircuitBreaker_def example_options_def or_default_def)
  have clk: "snd (run_calls id no_value [op_down, op_down] (new_CircuitBreaker example_options, 0)) = 10"
    by (simp add: example_options_def new_CircuitBreaker_def or_default_def op_down_def
        no_value_def execute_def admitted_def onFailure_def transition_def Let_def)
  have st: "state tripped = OPEN" and nrt: "nextRetryTime tripped = Some 1010"
    and tot: "totalRequests tripped = 2" and rt2: "resetTimeout (transition HALF_OPEN tripped) = 1000"
    by (simp_all add: tripped_value transition_def)
  have half: "state (transition HALF_OPEN tripped) = HALF_OPEN"
    by (simp add: transition_def)
  have up: "op_up 1010 = (Inr ''rows'', 1015)" and down: "op_down 1010 = (Inl (Some ''down''), 1015)"
    and readable: "\<not> no_value (Some ''down'')"
    by (simp_all add: op_up_def op_down_def no_value_def)
  have fb: "run_fallback fallback_cached (tripped\<lparr> totalRequests := 3 \<rparr>) 500
            = (Inr ''cached'', tripped\<lparr> totalRequests := 3 \<rparr>, 500)"
    by (simp add: run_fallback_def fallback_cached_def)
  note inst = breaker_state_machine [where now = id and unreadable = no_value
        and options = example_options
        and fns = "[op_down, op_down]" and ?w0.0 = 0 and t = 1010 and fb = fallback_cached
        and fallback = None and v = "''rows''" and w' = 1015 and e = "Some ''down''"]
  have A: "state tripped = OPEN \<and> nextRetryTime tripped = Some 1010"
    using inst [where fn = op_up and cb = tripped and w = 500] fails len rt clk
    by (simp add: tripped_def)
  have B: "execute id no_value op_up None (tripped, 500)
             = (Inl CircuitBreakerError, tripped\<lparr> totalRequests := 3 \<rparr>, 500)
           \<and> execute id no_value op_up (Some fallback_cached) (tripped, 500)
             = (Inr ''cached'', tripped\<lparr> totalRequests := 3 \<rparr>, 500)"
    using inst [where fn = op_up and cb = tripped and w = 500] st nrt tot fb by simp
  have C: "execute id no_value op_up None (tripped, 1010)
             = execute id no_value op_up None (transition HALF_OPEN tripped, 1010)"
    using inst [where fn = op_up and cb = tripped and w = 1010] st nrt by simp
  have D: "state (fst (snd (execute id no_value op_up None (transition HALF_OPEN tripped, 1010)))) = CLOSED
           \<and> failures (fst (snd (execute id no_value op_up None (transition HALF_OPEN tripped, 1010)))) = 0"
    using inst [where fn = op_up and cb = "transition HALF_OPEN tripped" and w = 1010] half up
    by simp
  have E: "state (fst (snd (execute id no_value op_down None (transition HALF_OPEN tripped, 1010)))) = OPEN
           \<and> nextRetryTime (fst (snd (execute id no_value op_down None (transition HALF_OPEN tripped, 1010))))
               = Some 2015"
    using inst [where fn = op_down and cb = "transition HALF_OPEN tripped" and w = 1010]
      half down readable rt2 by simp
  from A B C D E show ?thesis by simp
qed

text \<open>
  C2 as stated fails: a call made while \<open>OPEN\<close>, before \<open>nextRetryTime\<close>, that
  passes a fallback is not rejected with the breaker's error; it returns the fallback's
  value.
\<close>

theorem open_call_with_fallback_not_rejected:
  "state tripped = OPEN \<and> nextRetryTime tripped = Some 1010
   \<and> fst (execute id no_value op_up (Some fallback_cached) (tripped, 500)) = Inr ''cached''
   \<and> fst (execute id no_value op_up (Some fallback_cached) (tripped, 500)) \<noteq> Inl CircuitBreakerError"
  by (simp add: tripped_value execute_def retry_due_def run_fallback_def fallback_cached_def Let_def)

lemma run_calls_append:
  "run_calls now unreadable (fns @ [fn]) s
     = snd (execute now unreadable fn None (run_calls now unreadable fns s))"
  by (induction fns arbitrary: s) simp_all

lemma run_calls_threshold:
  "failureThreshold (fst (run_calls now unreadable fns s)) = failureThreshold (fst s)"
proof (induction fns arbitrary: s)
  case Nil
  show ?case by simp
next
  case (Cons fn fns)
  have "failureThreshold (fst (snd (execute now unreadable fn None s))) = failureThreshold (fst s)"
    by (cases s)
       (simp add: execute_def admitted_def onSuccess_def onFailure_def transition_def Let_def
          split: prod.splits sum.splits)
  with Cons.IH [of "snd (execute now unreadable fn None s)"] show ?case by simp
qed

text \<open>
  What holds of the failure counter away from the log line of \<open>_onFailure\<close>. A
  successful call while \<open>CLOSED\<close> leaves the state and the counter as they are;
  \<open>_onSuccess\<close> changes the counter in \<open>HALF_OPEN\<close> only, so a call lowers the counter
  only when its operation succeeded as the trial call, and then to 0; \<open>reset\<close> sets it
  to 0. Over any sequence of calls on a \<open>CLOSED\<close> breaker the counter is its old value
  plus the number of failed calls as long as that stays below \<open>failureThreshold\<close>,
  whatever successes lie in between, and a failure with a readable error that reaches
  the threshold opens the breaker.
\<close>

lemma failure_count_accumulates:
  fixes now :: "'w \<Rightarrow> int" and fn :: "('w, 'e, 'a) operation"
  shows
  "(state cb = CLOSED \<and> fn w = (Inr v, w')
      \<longrightarrow> state (fst (snd (execute now unreadable fn fallback (cb, w)))) = CLOSED
        \<and> failures (fst (snd (execute now unreadable fn fallback (cb, w)))) = failures cb)
   \<and> (failures (onSuccess cb) \<noteq> failures cb \<longrightarrow> state cb = HALF_OPEN)
   \<and> (failures (fst (snd (execute now unreadable fn fallback (cb, w)))) < failures cb
      \<longrightarrow> failures (fst (snd (execute now unreadable fn fallback (cb, w)))) = 0
        \<and> (\<exists>v. fst (fn w) = Inr v)
        \<and> (state cb = HALF_OPEN \<or> state cb = OPEN \<and> retry_due (now w) cb))
   \<and> state (reset cb) = CLOSED \<and> failures (reset cb) = 0
   \<and> (state cb = CLOSED
        \<and> failures cb + count_failed now unreadable fns (cb, w) < failureThreshold cb
      \<longrightarrow> state (fst (run_calls now unreadable fns (cb, w))) = CLOSED
        \<and> failures (fst (run_calls now unreadable fns (cb, w)))
            = failures cb + count_failed now unreadable fns (cb, w))
   \<and> (state cb = CLOSED \<and> fn w = (Inl e, w') \<and> \<not> unreadable e
        \<and> failureThreshold cb \<le> Suc (failures cb)
      \<longrightarrow> state (fst (snd (execute now unreadable fn fallback (cb, w)))) = OPEN)
   \<and> (state cb = CLOSED \<and> failures cb = 0
        \<and> Suc (count_failed now unreadable fns (cb, w)) = failureThreshold cb
        \<and> fn (snd (run_calls now unreadable fns (cb, w))) = (Inl e, w') \<and> \<not> unreadable e
      \<longrightarrow> state (fst (run_calls now unreadable (fns @ [fn]) (cb, w))) = OPEN)"
proof -
  have fbk: "\<And>fb cb' w2. fst (snd (run_fallback fb cb' w2)) = cb'"
    by (simp add: run_fallback_def split: prod.splits sum.splits)
  have adm_fail: "\<And>cb0 e w1. fn w = (Inl e, w1) \<Longrightarrow>
      failures (fst (snd (admitted now unreadable fn fallback cb0 w))) = Suc (failures cb0)"
  proof -
    fix cb0 e w1 assume fw: "fn w = (Inl e, w1)"
    obtain k cb' where onf: "onFailure unreadable e (now w1) cb0 = (k, cb')"
      by (cases "onFailure unreadable e (now w1) cb0")
    with onFailure_failures(1) [of unreadable e "now w1" cb0]
    have "failures cb' = Suc (failures cb0)" by simp
    with fw onf show "failures (fst (snd (admitted now unreadable fn fallback cb0 w))) = Suc (failures cb0)"
      by (cases k; cases fallback) (simp_all add: admitted_def fbk)
  qed
  have a: "state cb = CLOSED \<and> fn w = (Inr v, w')
      \<longrightarrow> state (fst (snd (execute now unreadable fn fallback (cb, w)))) = CLOSED
        \<and> failures (fst (snd (execute now unreadable fn fallback (cb, w)))) = failures cb"
    by (simp add: exec_closed_success)
  have b: "failures (onSuccess cb) \<noteq> failures cb \<longrightarrow> state cb = HALF_OPEN"
    by (simp add: onSuccess_def Let_def)
  have c: "failures (fst (snd (execute now unreadable fn fallback (cb, w)))) < failures cb
      \<longrightarrow> failures (fst (snd (execute now unreadable fn fallback (cb, w)))) = 0
        \<and> (\<exists>v. fst (fn w) = Inr v)
        \<and> (state cb = HALF_OPEN \<or> state cb = OPEN \<and> retry_due (now w) cb)"
  proof
    assume lt: "failures (fst (snd (execute now unreadable fn fallback (cb, w)))) < failures cb"
    obtain r w1 where fw: "fn w = (r, w1)" by (cases "fn w")
    have rej: "\<not> (state cb = OPEN \<and> \<not> retry_due (now w) cb)"
    proof
      assume "state cb = OPEN \<and> \<not> retry_due (now w) cb"
      then have "failures (fst (snd (execute now unreadable fn fallback (cb, w)))) = failures cb"
        by (cases fallback) (simp_all add: execute_def retry_due_def fbk Let_def)
      with lt show False by simp
    qed
    have nofail: "\<And>e. r \<noteq> Inl e"
    proof
      fix e assume "r = Inl e"
      with fw rej adm_fail
      have "failures (fst (snd (execute now unreadable fn fallback (cb, w)))) = Suc (failures cb)"
        by (cases "state cb") (simp_all add: execute_def retry_due_def Let_def)
      with lt show False by simp
    qed
    then obtain v1 where r: "r = Inr v1" by (cases r) auto
    have notclosed: "state cb \<noteq> CLOSED"
    proof
      assume "state cb = CLOSED"
      with fw r have "failures (fst (snd (execute now unreadable fn fallback (cb, w)))) = failures cb"
        by (simp add: exec_closed_success)
      with lt show False by simp
    qed
    have zero: "failures (fst (snd (execute now unreadable fn fallback (cb, w)))) = 0"
      using fw r rej notclosed
      by (cases "state cb")
         (simp_all add: execute_def admitted_def onSuccess_def retry_due_def Let_def)
    from zero fw r rej notclosed
    show "failures (fst (snd (execute now unreadable fn fallback (cb, w)))) = 0
        \<and> (\<exists>v. fst (fn w) = Inr v)
        \<and> (state cb = HALF_OPEN \<or> state cb = OPEN \<and> retry_due (now w) cb)"
      by (cases "state cb") auto
  qed
  have d: "state (reset cb) = CLOSED \<and> failures (reset cb) = 0"
    by (simp add: reset_def)
  have e: "state cb = CLOSED
        \<and> failures cb + count_failed now unreadable fns (cb, w) < failureThreshold cb
      \<longrightarrow> state (fst (run_calls now unreadable fns (cb, w))) = CLOSED
        \<and> failures (fst (run_calls now unreadable fns (cb, w)))
            = failures cb + count_failed now unreadable fns (cb, w)"
    using run_closed_invariant [where cb = cb and now = now and unreadable = unreadable
        and fns = fns and w = w] by blast
  have f: "state cb = CLOSED \<and> fn w = (Inl e, w') \<and> \<not> unreadable e
        \<and> failureThreshold cb \<le> Suc (failures cb)
      \<longrightarrow> state (fst (snd (execute now unreadable fn fallback (cb, w)))) = OPEN"
  proof (intro impI, elim conjE)
    assume st: "state cb = CLOSED" and fw: "fn w = (Inl e, w')" and rd: "\<not> unreadable e"
      and th: "failureThreshold cb \<le> Suc (failures cb)"
    let ?cb0 = "cb\<lparr> totalRequests := Suc (totalRequests cb) \<rparr>"
    obtain k cb' where onf: "onFailure unreadable e (now w') ?cb0 = (k, cb')"
      by (cases "onFailure unreadable e (now w') ?cb0")
    from onFailure_closed [of ?cb0 unreadable e "now w'"] st rd th onf
    have k: "k = Returned" and so: "state cb' = OPEN" by simp_all
    show "state (fst (snd (execute now unreadable fn fallback (cb, w)))) = OPEN"
    proof (cases fallback)
      case None
      with st fw onf k so show ?thesis by (simp add: execute_def admitted_def Let_def)
    next
      case (Some fb)
      obtain r w'' where "fb w' = (r, w'')" by (cases "fb w'")
      with Some st fw onf k so show ?thesis
        by (cases r) (simp_all add: execute_def admitted_def run_fallback_def Let_def)
    qed
  qed
  have g: "state cb = CLOSED \<and> failures cb = 0
        \<and> Suc (count_failed now unreadable fns (cb, w)) = failureThreshold cb
        \<and> fn (snd (run_calls now unreadable fns (cb, w))) = (Inl e, w') \<and> \<not> unreadable e
      \<longrightarrow> state (fst (run_calls now unreadable (fns @ [fn]) (cb, w))) = OPEN"
  proof (intro impI, elim conjE)
    assume st: "state cb = CLOSED" and z: "failures cb = 0"
      and cnt: "Suc (count_failed now unreadable fns (cb, w)) = failureThreshold cb"
      and fw: "fn (snd (run_calls now unreadable fns (cb, w))) = (Inl e, w')"
      and rd: "\<not> unreadable e"
    obtain cb1 w1 where r: "run_calls now unreadable fns (cb, w) = (cb1, w1)"
      by (cases "run_calls now unreadable fns (cb, w)")
    from z cnt have "failures cb + count_failed now unreadable fns (cb, w) < failureThreshold cb"
      by simp
    from run_closed_invariant [OF st this] r z
    have st1: "state cb1 = CLOSED"
      and f1: "failures cb1 = count_failed now unreadable fns (cb, w)"
      by simp_all
    have th1: "failureThreshold cb1 = failureThreshold cb"
      using run_calls_threshold [where now = now and unreadable = unreadable and fns = fns
          and s = "(cb, w)"] r by simp
    let ?cb2 = "snd (onFailure unreadable e (now w')
                       (cb1\<lparr>totalRequests := Suc (totalRequests cb1)\<rparr>))"
    have "execute now unreadable fn None (cb1, w1) = (Inl (Thrown e), ?cb2, w')"
      using st1 fw r rd by (simp add: exec_closed_failure)
    moreover have "state ?cb2 = OPEN"
      using onFailure_closed [of "cb1\<lparr>totalRequests := Suc (totalRequests cb1)\<rparr>" unreadable e "now w'"]
        st1 f1 th1 cnt rd by simp
    ultimately show "state (fst (run_calls now unreadable (fns @ [fn]) (cb, w))) = OPEN"
      using r by (simp add: run_calls_append)
  qed
  from a b c d e f g show ?thesis by blast
qed

text \<open>
  C10. The claim is that the breaker goes from \<open>CLOSED\<close> to \<open>OPEN\<close> once
  \<open>failureThreshold\<close> failures have accumulated. When the failure that reaches the
  threshold is an operation rejecting with \<open>undefined\<close>, \<open>_onFailure\<close> counts it and
  then throws on the log line that reads \<open>error.message\<close>, before the test that opens
  the breaker: on the sample breaker with threshold 2, after a failure with an error and
  a rejection with \<open>undefined\<close> the call ends with that \<open>TypeError\<close>, the counter is
  2 and the state is still \<open>CLOSED\<close>, where two failures with an error leave it
  \<open>OPEN\<close>.
\<close>

theorem undefined_rejection_at_threshold_stays_closed:
  "failureThreshold (new_CircuitBreaker example_options) = 2
   \<and> fst (execute id no_value op_undefined None
            (snd (execute id no_value op_down None (new_CircuitBreaker example_options, 0))))
       = Inl TypeError_on_message
   \<and> failures (fst (run_calls id no_value [op_down, op_undefined]
                      (new_CircuitBreaker example_options, 0))) = 2
   \<and> state (fst (run_calls id no_value [op_down, op_undefined]
                   (new_CircuitBreaker example_options, 0))) = CLOSED
   \<and> state (fst (run_calls id no_value [op_down, op_down]
                   (new_CircuitBreaker example_options, 0))) = OPEN"
  by (simp add: example_options_def new_CircuitBreaker_def or_default_def op_down_def
      op_undefined_def no_value_def execute_def admitted_def onFailure_def transition_def Let_def)

section \<open>Request executors: properties\<close>

declare attempt_loop.simps [simp del] requestWithRetry_loop.simps [simp del]

lemma waitForRateLimit_counts [simp]:
  "http_calls (waitForRateLimit e c w) = http_calls w"
  "login_calls (waitForRateLimit e c w) = login_calls w"
  "stats_retries (waitForRateLimit e c w) = stats_retries w"
  "stats_failures (waitForRateLimit e c w) = stats_failures w"
  by (simp_all add: waitForRateLimit_def sleep_def Let_def)

lemma http_get_counts [simp]:
  "fst (http_get e w) = http e (http_calls w)"
  "http_calls (snd (http_get e w)) = Suc (http_calls w)"
  "login_calls (snd (http_get e w)) = login_calls w"
  "stats_retries (snd (http_get e w)) = stats_retries w"
  "stats_failures (snd (http_get e w)) = stats_failures w"
  by (simp_all add: http_get_def)

lemma refreshCookies_counts [simp]:
  "fst (refreshCookies e w) = (login e (login_calls w) \<noteq> None)"
  "http_calls (snd (refreshCookies e w)) = http_calls w"
  "login_calls (snd (refreshCookies e w)) = Suc (login_calls w)"
  "stats_retries (snd (refreshCookies e w)) = stats_retries w"
  "stats_failures (snd (refreshCookies e w)) = stats_failures w"
  by (simp_all add: refreshCookies_def Let_def split: option.splits)

lemma backoff_sleep_counts [simp]:
  "http_calls (backoff_sleep e c a w) = http_calls w"
  "login_calls (backoff_sleep e c a w) = login_calls w"
  by (simp_all add: backoff_sleep_def sleep_def)


lemma attempt_loop_bounds:
  "(\<And>out w. http_calls (snd (try_block out w)) = http_calls w
            \<and> login_calls (snd (try_block out w)) = login_calls w) \<Longrightarrow>
   http_calls (snd (attempt_loop e c try_block expired attempt lastError w))
     \<le> http_calls w + (Suc (maxRetries c) - attempt)
   \<and> login_calls (snd (attempt_loop e c try_block expired attempt lastError w))
     \<le> login_calls w + (Suc (maxRetries c) - attempt)"
proof (induction e c try_block expired attempt lastError w rule: attempt_loop.induct)
  case (1 e c try_block expired attempt lastError w)
  note tb = "1.prems"
  show ?case
  proof (cases "attempt \<le> maxRetries c")
    case False
    then show ?thesis by (simp add: attempt_loop.simps [of e c try_block expired attempt])
  next
    case True
    let ?w2 = "snd (http_get e (waitForRateLimit e c w))"
    let ?out = "fst (http_get e (waitForRateLimit e c w))"
    obtain r w1 where tr: "try_block ?out ?w2 = (r, w1)"
      by (cases "try_block ?out ?w2")
    have w1: "http_calls w1 = Suc (http_calls w)" "login_calls w1 = login_calls w"
      using tb [of ?out ?w2] tr by simp_all
    show ?thesis
    proof (cases r)
      case (Inr v)
      have "attempt_loop e c try_block expired attempt lastError w = (Inr v, w1)"
        using True tr Inr by (subst attempt_loop.simps) simp
      with True w1 show ?thesis by auto
    next
      case (Inl err)
      consider (expired_ok) "response_status err = Some 403 \<or> err = Html_session_error"
                 "fst (refreshCookies e w1)"
        | (expired_fail) "response_status err = Some 403 \<or> err = Html_session_error"
                 "\<not> fst (refreshCookies e w1)"
        | (not_found) "\<not> (response_status err = Some 403 \<or> err = Html_session_error)"
                 "response_status err = Some 404"
        | (retry) "\<not> (response_status err = Some 403 \<or> err = Html_session_error)"
                 "response_status err \<noteq> Some 404" "attempt < maxRetries c"
        | (last) "\<not> (response_status err = Some 403 \<or> err = Html_session_error)"
                 "response_status err \<noteq> Some 404" "\<not> attempt < maxRetries c"
        by blast
      then show ?thesis
      proof cases
        case expired_ok
        have eq: "attempt_loop e c try_block expired attempt lastError w
                  = attempt_loop e c try_block expired (Suc attempt) (Some err)
                      (snd (refreshCookies e w1))"
          using True tr Inl expired_ok
          by (subst attempt_loop.simps) (simp del: refreshCookies_counts(1))
        from "1.IH"(1) [OF True tr [symmetric] Inl expired_ok tb] True w1 show ?thesis
          unfolding eq by auto
      next
        case expired_fail
        have "attempt_loop e c try_block expired attempt lastError w
              = (Inl expired, (snd (refreshCookies e w1))
                   \<lparr> stats_failures := Suc (stats_failures (snd (refreshCookies e w1))) \<rparr>)"
          using True tr Inl expired_fail
          by (subst attempt_loop.simps) (simp del: refreshCookies_counts(1))
        with True w1 show ?thesis by auto
      next
        case not_found
        have "attempt_loop e c try_block expired attempt lastError w = (Inr (JArr []), w1)"
          using True tr Inl not_found by (subst attempt_loop.simps) simp
        with True w1 show ?thesis by auto
      next
        case retry
        have eq: "attempt_loop e c try_block expired attempt lastError w
                  = attempt_loop e c try_block expired (Suc attempt) (Some err)
                      (backoff_sleep e c attempt w1)"
          using True tr Inl retry by (subst attempt_loop.simps) simp
        from "1.IH"(2) [OF True tr [symmetric] Inl retry tb] True w1 show ?thesis
          unfolding eq by auto
      next
        case last
        have eq: "attempt_loop e c try_block expired attempt lastError w
                  = attempt_loop e c try_block expired (Suc attempt) (Some err) w1"
          using True tr Inl last by (subst attempt_loop.simps) simp
        from "1.IH"(3) [OF True tr [symmetric] Inl last tb] True w1 show ?thesis
          unfolding eq by auto
      qed
    qed
  qed
qed


lemma one_retry_value:
  "one_retry = \<lparr> timeout = 45000, requestDelay = 1200, jitterMax = 600, maxRetries = 1,
                  baseBackoffMs = 2500 \<rparr>"
  by (simp add: one_retry_def NSDLBondClient_config_def or_default_def)

lemma after_refresh_counts [simp]:
  "http_calls (after_refresh e c w) = Suc (http_calls w)"
  "login_calls (after_refresh e c w) = Suc (login_calls w)"
  "stats_retries (after_refresh e c w) = stats_retries w"
  "stats_failures (after_refresh e c w) = stats_failures w"
  by (simp_all add: after_refresh_def)

lemma attempt_loop_expired:
  assumes "attempt \<le> maxRetries c"
    and "try_block (http e (http_calls w)) (snd (http_get e (waitForRateLimit e c w)))
         = (Inl err, snd (http_get e (waitForRateLimit e c w)))"
    and "response_status err = Some 403 \<or> err = Html_session_error"
  shows "login e (login_calls w) = None \<longrightarrow>
           attempt_loop e c try_block expired attempt lastError w
           = (Inl expired, (after_refresh e c w)\<lparr> stats_failures := Suc (stats_failures w) \<rparr>)"
    and "login e (login_calls w) \<noteq> None \<longrightarrow>
           attempt_loop e c try_block expired attempt lastError w
           = attempt_loop e c try_block expired (Suc attempt) (Some err) (after_refresh e c w)"
  using assms by (subst attempt_loop.simps, simp add: after_refresh_def)+

lemma attempt_loop_not_found:
  assumes "attempt \<le> maxRetries c"
    and "try_block (http e (http_calls w)) (snd (http_get e (waitForRateLimit e c w)))
         = (Inl (Request_failed (Some 404)), snd (http_get e (waitForRateLimit e c w)))"
  shows "attempt_loop e c try_block expired attempt lastError w
         = (Inr (JArr []), snd (http_get e (waitForRateLimit e c w)))"
  using assms by (subst attempt_loop.simps) simp

lemma requestWithRetry_loop_not_found:
  assumes "attempt \<le> maxRetries c" and "http e (http_calls w) = Response 404 b"
  shows "requestWithRetry_loop e c attempt lastError w
         = (Inr JNull, snd (http_get e (waitForRateLimit e c w)))"
  using assms by (subst requestWithRetry_loop.simps) (simp add: requestWithRetry_try_def)

lemma try_preserves_counts:
  "http_calls (snd (request_try e out w)) = http_calls w
   \<and> login_calls (snd (request_try e out w)) = login_calls w"
  "http_calls (snd (requestExcel_try x out' w)) = http_calls w
   \<and> login_calls (snd (requestExcel_try x out' w)) = login_calls w"
  by (simp_all add: request_try_def requestExcel_try_def split: http_outcome.splits option.splits)



lemma world0_counts:
  "http_calls world0 = 0" "login_calls world0 = 0"
  by (simp_all add: world0_def)

lemma one_retry_max: "maxRetries one_retry = 1"
  by (simp add: one_retry_value)



lemma ensure_cookies_http [simp]: "http_calls (ensure_cookies e w) = http_calls w"
  by (simp add: ensure_cookies_def)

text \<open>
  C9. In each of the three attempt loops, at any attempt index, a 404 response ends the
  loop at once with an empty result (\<open>[]\<close> in \<open>_request\<close> and \<open>_requestExcel\<close>,
  \<open>null\<close> in \<open>_requestWithRetry\<close>): the state is the one right after that HTTP call,
  so no further call is made and no retry is counted. The same holds for the whole
  operation through a breaker that admits the call.
\<close>

theorem not_found_empty_without_retry:
  fixes e :: "jsval env" and x :: "string env"
  shows
  "(attempt \<le> maxRetries c \<and> http e (http_calls w) = Response 404 b
      \<longrightarrow> request_loop e c endpoint attempt lastError w
            = (Inr (JArr []), snd (http_get e (waitForRateLimit e c w)))
        \<and> requestWithRetry_loop e c attempt lastError w
            = (Inr JNull, snd (http_get e (waitForRateLimit e c w))))
   \<and> (attempt \<le> maxRetries c \<and> http x (http_calls w) = Response 404 d
      \<longrightarrow> requestExcel_loop x c endpoint attempt lastError w
            = (Inr (JArr []), snd (http_get x (waitForRateLimit x c w))))
   \<and> http_calls (snd (http_get e (waitForRateLimit e c w))) = Suc (http_calls w)
   \<and> stats_retries (snd (http_get e (waitForRateLimit e c w))) = stats_retries w
   \<and> http_calls (snd (http_get x (waitForRateLimit x c w))) = Suc (http_calls w)
   \<and> stats_retries (snd (http_get x (waitForRateLimit x c w))) = stats_retries w
   \<and> (state cb \<noteq> OPEN \<and> http e (http_calls w) = Response 404 b
      \<longrightarrow> fst (request e c endpoint (cb, w)) = Inr (JArr [])
        \<and> http_calls (snd (snd (request e c endpoint (cb, w)))) = Suc (http_calls w)
        \<and> fst (requestWithRetry e c (cb, w)) = Inr JNull
        \<and> http_calls (snd (snd (requestWithRetry e c (cb, w)))) = Suc (http_calls w))
   \<and> (state cb \<noteq> OPEN \<and> http x (http_calls w) = Response 404 d
      \<longrightarrow> fst (requestExcel x c endpoint (cb, w)) = Inr (JArr [])
        \<and> http_calls (snd (snd (requestExcel x c endpoint (cb, w)))) = Suc (http_calls w))"
proof -
  have rj: "\<And>w attempt lastError. attempt \<le> maxRetries c \<Longrightarrow> http e (http_calls w) = Response 404 b
      \<Longrightarrow> request_loop e c endpoint attempt lastError w
            = (Inr (JArr []), snd (http_get e (waitForRateLimit e c w)))"
    unfolding request_loop_def
    by (rule attempt_loop_not_found) (simp_all add: request_try_def)
  have rx: "\<And>w attempt lastError. attempt \<le> maxRetries c \<Longrightarrow> http x (http_calls w) = Response 404 d
      \<Longrightarrow> requestExcel_loop x c endpoint attempt lastError w
            = (Inr (JArr []), snd (http_get x (waitForRateLimit x c w)))"
    unfolding requestExcel_loop_def
    by (rule attempt_loop_not_found) (simp_all add: requestExcel_try_def)
  note rw = requestWithRetry_loop_not_found [of _ c e _ b]
  have oj: "state cb \<noteq> OPEN \<and> http e (http_calls w) = Response 404 b
      \<longrightarrow> fst (request e c endpoint (cb, w)) = Inr (JArr [])
        \<and> http_calls (snd (snd (request e c endpoint (cb, w)))) = Suc (http_calls w)
        \<and> fst (requestWithRetry e c (cb, w)) = Inr JNull
        \<and> http_calls (snd (snd (requestWithRetry e c (cb, w)))) = Suc (http_calls w)"
    by (simp add: request_def requestWithRetry_def execute_def admitted_def rj rw Let_def)
  have ox: "state cb \<noteq> OPEN \<and> http x (http_calls w) = Response 404 d
      \<longrightarrow> fst (requestExcel x c endpoint (cb, w)) = Inr (JArr [])
        \<and> http_calls (snd (snd (requestExcel x c endpoint (cb, w)))) = Suc (http_calls w)"
    by (simp add: requestExcel_def execute_def admitted_def rx Let_def)
  from rj [of attempt w lastError] rx [of attempt w lastError] rw [of attempt w lastError] oj ox
  show ?thesis by simp
qed

text \<open>
  The sample upstreams that answer 404, at attempt 0 and through a new breaker: the
  result is empty after one HTTP call.
\<close>

theorem not_found_empty_without_retry_witness:
  "request_loop env_404 one_retry ''/issuerwise'' 0 None world0
     = (Inr (JArr []), snd (http_get env_404 (waitForRateLimit env_404 one_retry world0)))
   \<and> requestWithRetry_loop env_404 one_retry 0 None world0
     = (Inr JNull, snd (http_get env_404 (waitForRateLimit env_404 one_retry world0)))
   \<and> requestExcel_loop env_404_excel one_retry ''/issuerwise'' 0 None world0
     = (Inr (JArr []), snd (http_get env_404_excel (waitForRateLimit env_404_excel one_retry world0)))
   \<and> http_calls (snd (http_get env_404 (waitForRateLimit env_404 one_retry world0))) = 1
   \<and> stats_retries (snd (http_get env_404 (waitForRateLimit env_404 one_retry world0))) = 0
   \<and> fst (request env_404 one_retry ''/issuerwise'' (new_CircuitBreaker example_options, world0))
     = Inr (JArr [])
   \<and> http_calls (snd (snd (request env_404 one_retry ''/issuerwise''
                               (new_CircuitBreaker example_options, world0)))) = 1
   \<and> fst (requestWithRetry env_404 one_retry (new_CircuitBreaker example_options, world0))
     = Inr JNull
   \<and> fst (requestExcel env_404_excel one_retry ''/issuerwise''
            (new_CircuitBreaker example_options, world0))
     = Inr (JArr [])"
proof -
  have r: "stats_retries world0 = 0"
    by (simp add: world0_def)
  show ?thesis
    using not_found_empty_without_retry [where e = env_404 and x = env_404_excel
        and c = one_retry and attempt = 0 and w = world0 and b = "JStr ''Not Found''"
        and d = "''Not Found''" and endpoint = "''/issuerwise''" and lastError = None
        and cb = "new_CircuitBreaker example_options"]
    by (simp add: env_404_def env_404_excel_def world0_counts one_retry_max new_breaker_facts r)
qed

section \<open>Enrichment merge: properties\<close>

lemma rate_map_value:
  "rate_map ''INE002A07809'' = Some [(''interestRateCategory'', JNull), (''couponRate'', JUndefined)]"
  by code_simp

lemma rating_map_value:
  "rating_map ''INE002A07809'' = Some [(''creditRating'', JStr ''CRISILAAA''), (''ratingAgency'', JNull)]"
  by code_simp

lemma merge_entry_keeps:
  "(\<forall>(n, x)\<in>set entry. n = name \<longrightarrow> is_empty x) \<Longrightarrow> merge_entry fs entry name = fs name"
  by (induction entry arbitrary: fs) auto

lemma apply_enrichment_isin [simp]: "isin (apply_enrichment m b) = isin b"
  by (simp add: apply_enrichment_def split: option.splits)

lemma apply_enrichment_keeps:
  "(\<forall>entry. m (isin b) = Some entry \<longrightarrow> (\<forall>(n, x)\<in>set entry. n = name \<longrightarrow> is_empty x))
   \<Longrightarrow> attrs (apply_enrichment m b) name = attrs b name"
  by (simp add: apply_enrichment_def merge_entry_keeps split: option.splits)

text \<open>
  C3. For every record, every field and every sequence of enrichment maps: when the
  record holds a non-empty value for the field and, in each map, the entry for the
  record either is absent or holds for that field no value or only empty ones, the
  merge leaves the record's value for the field unchanged.
\<close>

theorem merge_keeps_nonempty_value:
  "attrs b name = Some v \<and> \<not> is_empty v
   \<and> (\<forall>m\<in>set ms. \<forall>entry. m (isin b) = Some entry \<longrightarrow>
          (\<forall>(n, x)\<in>set entry. n = name \<longrightarrow> is_empty x))
   \<longrightarrow> attrs (merge_enrichments ms b) name = Some v"
proof (induction ms arbitrary: b)
  case Nil
  show ?case by simp
next
  case (Cons m ms)
  show ?case
  proof (intro impI, elim conjE)
    assume v: "attrs b name = Some v" and ne: "\<not> is_empty v"
      and all: "\<forall>m\<in>set (m # ms). \<forall>entry. m (isin b) = Some entry \<longrightarrow>
                  (\<forall>(n, x)\<in>set entry. n = name \<longrightarrow> is_empty x)"
    from all have "attrs (apply_enrichment m b) name = attrs b name"
      by (intro apply_enrichment_keeps) simp
    with v ne all Cons.IH [of "apply_enrichment m b"]
    show "attrs (merge_enrichments (m # ms) b) name = Some v" by simp
  qed
qed

text \<open>
  The two extracted maps applied in turn to the sample record: the interest-rate entry
  holds \<open>undefined\<close> for \<open>couponRate\<close>, the rating entry holds \<open>null\<close> for
  \<open>ratingAgency\<close>, and the record keeps both of its values.
\<close>

theorem merge_keeps_nonempty_value_witness:
  "attrs (merge_enrichments [rate_map, rating_map] bond0) ''couponRate'' = Some (JNum (17 / 2))
   \<and> attrs (merge_enrichments [rate_map, rating_map] bond0) ''ratingAgency'' = Some (JStr ''CRISIL'')"
proof -
  have a: "attrs (merge_enrichments [rate_map, rating_map] bond0) ''couponRate'' = Some (JNum (17 / 2))"
    using merge_keeps_nonempty_value [where b = bond0 and name = "''couponRate''"
        and v = "JNum (17 / 2)" and ms = "[rate_map, rating_map]"]
    by (simp add: bond0_def rate_map_value rating_map_value is_empty_def)
  have b: "attrs (merge_enrichments [rate_map, rating_map] bond0) ''ratingAgency'' = Some (JStr ''CRISIL'')"
    using merge_keeps_nonempty_value [where b = bond0 and name = "''ratingAgency''"
        and v = "JStr ''CRISIL''" and ms = "[rate_map, rating_map]"]
    by (simp add: bond0_def rate_map_value rating_map_value is_empty_def)
  from a b show ?thesis by simp
qed

end
